theory Spec2Isabelle
  imports Complex_Main
begin

section \<open>Python values used by the dataset builders\<close>

text \<open>
  A Python \<^verbatim>\<open>str\<close> is a sequence of Unicode code points, so a string is a list of
  natural numbers here (the corpora are Korean text, far outside an 8-bit character).
  \<open>str\<close> writes the ASCII literals of the source.
\<close>

type_synonym pystr = "nat list"

definition str :: "string \<Rightarrow> pystr" where
  "str s = map of_char s"

text \<open>
  The exceptions the code can raise, with the argument tuple they are constructed with:
  \<^verbatim>\<open>raise ValueError()\<close> is \<open>Raised ValueError []\<close>.
\<close>

datatype exc_kind =
  ValueError | NotImplementedError | AttributeError | IOError | ConfigurationError
  | KeyError | IndexError | TypeError

datatype error = Raised exc_kind "pystr list"

text \<open>Sequencing of statements that may raise: the first exception ends the block.\<close>

definition bind :: "error + 'a \<Rightarrow> ('a \<Rightarrow> error + 'b) \<Rightarrow> error + 'b" where
  "bind m f = (case m of Inl e \<Rightarrow> Inl e | Inr x \<Rightarrow> f x)"

text \<open>
  A list comprehension \<^verbatim>\<open>[f(x) for x in xs]\<close> whose body may raise: the elements are
  evaluated left to right and the first exception leaves the comprehension.
\<close>

fun comprehension :: "('a \<Rightarrow> error + 'b) \<Rightarrow> 'a list \<Rightarrow> error + 'b list" where
  "comprehension f [] = Inr []"
| "comprehension f (x # xs) =
     bind (f x) (\<lambda>y. bind (comprehension f xs) (\<lambda>ys. Inr (y # ys)))"

subsection \<open>Whitespace, \<^verbatim>\<open>str.split()\<close> and \<^verbatim>\<open>str.rstrip()\<close>\<close>

text \<open>
  The code points for which \<^verbatim>\<open>str.isspace\<close> holds; \<^verbatim>\<open>split()\<close> and
  \<^verbatim>\<open>rstrip()\<close> without arguments use this set.
\<close>

definition isspace :: "nat \<Rightarrow> bool" where
  "isspace c = (c \<in> set [9, 10, 11, 12, 13, 28, 29, 30, 31, 32, 133, 160, 5760,
      8192, 8193, 8194, 8195, 8196, 8197, 8198, 8199, 8200, 8201, 8202,
      8232, 8233, 8239, 8287, 12288])"

text \<open>
  \<^verbatim>\<open>s.split()\<close>: runs of whitespace separate the tokens, and no token is empty.
  \<open>split_from cur cs\<close> scans \<open>cs\<close> with the token read so far in \<open>cur\<close>.
\<close>

fun split_from :: "pystr \<Rightarrow> pystr \<Rightarrow> pystr list" where
  "split_from cur [] = (if cur = [] then [] else [cur])"
| "split_from cur (c # cs) =
     (if isspace c then (if cur = [] then split_from [] cs else cur # split_from [] cs)
      else split_from (cur @ [c]) cs)"

definition split :: "pystr \<Rightarrow> pystr list" where
  "split s = split_from [] s"

text \<open>\<^verbatim>\<open>s.rstrip()\<close> removes every trailing whitespace code point.\<close>

definition rstrip :: "pystr \<Rightarrow> pystr" where
  "rstrip s = rev (dropWhile isspace (rev s))"

text \<open>\<^verbatim>\<open>s.replace('\n', '')\<close> removes every line feed.\<close>

definition replace_newline :: "pystr \<Rightarrow> pystr" where
  "replace_newline s = filter (\<lambda>c. c \<noteq> 10) s"

section \<open>Vocabulary\<close>

text \<open>
  Modelled from the spec: the class \<^verbatim>\<open>Vocabulary\<close> of \<^verbatim>\<open>data/vocab.py\<close>, which is
  not among the source files. The spec gives it a token-to-index mapping, an
  index-to-token mapping and four special tokens, each of which may be None, and the
  constructor takes \<^verbatim>\<open>max_size\<close> and \<^verbatim>\<open>min_freq\<close>.
\<close>

record vocabulary =
  word_to_idx :: "(pystr \<times> nat) list"
  idx_to_word :: "(nat \<times> pystr) list"
  unknown_token :: "pystr option"
  padding_token :: "pystr option"
  bos_token :: "pystr option"
  eos_token :: "pystr option"
  max_size :: "int option"
  min_freq :: int

text \<open>
  Modelled from the spec: \<^verbatim>\<open>Vocabulary.to_indices\<close> (missing with \<^verbatim>\<open>data/vocab.py\<close>).
  It maps a token sequence to an index sequence; a token that is not in the vocabulary
  maps to the index of the unknown token if one is configured, and is a
  ConfigurationError otherwise.
\<close>

definition lookup_index :: "vocabulary \<Rightarrow> pystr \<Rightarrow> error + nat" where
  "lookup_index v tkn =
     (case map_of (word_to_idx v) tkn of
        Some i \<Rightarrow> Inr i
      | None \<Rightarrow>
          (case unknown_token v of
             None \<Rightarrow> Inl (Raised ConfigurationError [])
           | Some u \<Rightarrow>
               (case map_of (word_to_idx v) u of
                  Some i \<Rightarrow> Inr i
                | None \<Rightarrow> Inl (Raised ConfigurationError []))))"

definition to_indices :: "vocabulary \<Rightarrow> pystr list \<Rightarrow> error + nat list" where
  "to_indices v tokens = comprehension (lookup_index v) tokens"

section \<open>DatasetBuilder: the shared methods\<close>

text \<open>\<^verbatim>\<open>_splitify\<close>: \<^verbatim>\<open>[s.split() for s in data]\<close>.\<close>

definition splitify :: "pystr list \<Rightarrow> pystr list list" where
  "splitify data = map split data"

text \<open>
  The call \<^verbatim>\<open>vocab.to_indices(s_d)\<close> on an attribute that may hold None: the
  attribute lookup on None raises AttributeError, with Python's message (39 is the
  apostrophe).
\<close>

definition none_has_no_to_indices :: error where
  "none_has_no_to_indices =
     Raised AttributeError
       [[39] @ str ''NoneType'' @ [39] @ str '' object has no attribute '' @ [39]
        @ str ''to_indices'' @ [39]]"

definition call_to_indices :: "vocabulary option \<Rightarrow> pystr list \<Rightarrow> error + nat list" where
  "call_to_indices vocab s_d =
     (case vocab of
        None \<Rightarrow> Inl none_has_no_to_indices
      | Some v \<Rightarrow> to_indices v s_d)"

text \<open>\<^verbatim>\<open>_numerize_from_text\<close>.\<close>

definition numerize_from_text :: "pystr list \<Rightarrow> vocabulary option \<Rightarrow> error + nat list list" where
  "numerize_from_text data vocab =
     (let splited_data = splitify data
      in comprehension (call_to_indices vocab) splited_data)"


subsection \<open>Files\<close>

text \<open>
  A \<^verbatim>\<open>pathlib.Path\<close> is kept as the expression that built it: \<open>Path s\<close> for
  \<^verbatim>\<open>Path(s)\<close> and \<open>Div p s\<close> for \<^verbatim>\<open>p / s\<close>. The world holds the text of every file
  that can be opened for reading (decoded, with universal newlines already translated
  to line feeds, as a file opened in mode \<^verbatim>\<open>'r'\<close> delivers it), the directories, and the
  paths that cannot be opened for writing.
\<close>

datatype path = Path pystr | Div path pystr

record world =
  files :: "path \<Rightarrow> pystr option"
  dirs :: "path set"
  readonly :: "path set"

text \<open>\<^verbatim>\<open>open(path, 'r')\<close> and writing a whole text through \<^verbatim>\<open>open(path, 'w')\<close>.\<close>

definition open_read :: "world \<Rightarrow> path \<Rightarrow> error + pystr" where
  "open_read w p = (case files w p of None \<Rightarrow> Inl (Raised IOError []) | Some c \<Rightarrow> Inr c)"

definition write_text :: "world \<Rightarrow> path \<Rightarrow> pystr \<Rightarrow> error + world" where
  "write_text w p c =
     (if p \<in> readonly w then Inl (Raised IOError []) else Inr (w\<lparr>files := (files w)(p \<mapsto> c)\<rparr>))"

text \<open>
  \<^verbatim>\<open>textfile.readline()\<close>: the text up to and including the next line feed, or the rest
  of the file when there is none (the empty string at the end of the file), and the
  text that stays unread.
\<close>

definition readline :: "pystr \<Rightarrow> pystr \<times> pystr" where
  "readline s =
     (case dropWhile (\<lambda>c. c \<noteq> 10) s of
        [] \<Rightarrow> (s, [])
      | nl # rest \<Rightarrow> (takeWhile (\<lambda>c. c \<noteq> 10) s @ [nl], rest))"

subsection \<open>What the builders use from outside the source files\<close>

text \<open>
  A numerized dataset is a dict from a field name to a list of index sequences, in
  insertion order. What \<^verbatim>\<open>Vocabulary.fit\<close> receives is a list whose elements are token
  lists (\<open>Tokens\<close>) or raw strings (\<open>Raw\<close>): Python does not tell them apart by type.
\<close>

type_synonym dataset = "(pystr \<times> nat list list) list"

datatype pyseq = Tokens "pystr list" | Raw pystr

text \<open>The word-segmentation builder is imported by the facade but is not among the sources.\<close>

typedecl ws_builder

text \<open>
  Everything the two source files import and do not define is a parameter of the model:
  \<^verbatim>\<open>utils.get_filelines\<close> and \<^verbatim>\<open>utils.make_dir_if_not_exist\<close>, \<^verbatim>\<open>json.dump\<close> with
  indent 4 (as the text it writes), the defaults of the \<^verbatim>\<open>Vocabulary\<close> constructor and
  its methods \<^verbatim>\<open>fit\<close>, \<^verbatim>\<open>to_json\<close> and \<^verbatim>\<open>from_json\<close> (each giving the vocabulary object
  after the call), the indices sklearn's shuffle split selects for a number of samples, a
  test size and a seed, the constants of \<^verbatim>\<open>configs.constants\<close>, and the
  word-segmentation builder's constructor and methods.
\<close>

record env =
  get_filelines :: "world \<Rightarrow> path \<Rightarrow> error + nat"
  make_dir_if_not_exist :: "path \<Rightarrow> world \<Rightarrow> error + world"
  json_dumps :: "dataset \<Rightarrow> pystr"
  vocab_defaults :: vocabulary
  fit :: "vocabulary \<Rightarrow> pyseq list \<Rightarrow> error + vocabulary"
  to_json :: "vocabulary \<Rightarrow> path \<Rightarrow> world \<Rightarrow> error + world"
  from_json :: "vocabulary \<Rightarrow> path \<Rightarrow> world \<Rightarrow> error + vocabulary"
  shuffle_split :: "nat \<Rightarrow> rat \<Rightarrow> int \<Rightarrow> error + (nat list \<times> nat list)"
  INPUT_VOCAB_FILENAME :: pystr
  TAG_VOCAB_FILENAME :: pystr
  CLASS_VOCAB_FILENAME :: pystr
  TRAIN_DATASET_FILENAME :: pystr
  VALIDATION_DATASET_FILENAME :: pystr
  INSTANT_DATASET_FILENAME :: pystr
  RANDOM_SEED :: int
  ws_init :: "path \<Rightarrow> path \<Rightarrow> vocabulary option \<Rightarrow> world \<Rightarrow> error + (ws_builder \<times> world)"
  ws_build_vocabulary :: "int option \<Rightarrow> ws_builder \<Rightarrow> world \<Rightarrow> error + (ws_builder \<times> world)"
  ws_build_trainable_dataset :: "ws_builder \<Rightarrow> world \<Rightarrow> error + (ws_builder \<times> world)"

text \<open>
  The keyword arguments of a call \<^verbatim>\<open>Vocabulary(...)\<close>: None for an argument the call
  leaves out, \<open>Some x\<close> for one it passes (\<open>Some None\<close> passes Python's None). An
  argument left out takes the constructor's default; a new vocabulary has no entries.
\<close>

record vocab_kwargs =
  kw_max_size :: "int option option"
  kw_min_freq :: "int option"
  kw_unknown_token :: "pystr option option"
  kw_padding_token :: "pystr option option"
  kw_bos_token :: "pystr option option"
  kw_eos_token :: "pystr option option"

definition no_kwargs :: vocab_kwargs where
  "no_kwargs = \<lparr> kw_max_size = None, kw_min_freq = None, kw_unknown_token = None,
     kw_padding_token = None, kw_bos_token = None, kw_eos_token = None \<rparr>"

definition Vocabulary :: "env \<Rightarrow> vocab_kwargs \<Rightarrow> vocabulary" where
  "Vocabulary E kw =
     \<lparr> word_to_idx = [], idx_to_word = [],
       unknown_token = (case kw_unknown_token kw of None \<Rightarrow> unknown_token (vocab_defaults E) | Some t \<Rightarrow> t),
       padding_token = (case kw_padding_token kw of None \<Rightarrow> padding_token (vocab_defaults E) | Some t \<Rightarrow> t),
       bos_token = (case kw_bos_token kw of None \<Rightarrow> bos_token (vocab_defaults E) | Some t \<Rightarrow> t),
       eos_token = (case kw_eos_token kw of None \<Rightarrow> eos_token (vocab_defaults E) | Some t \<Rightarrow> t),
       max_size = (case kw_max_size kw of None \<Rightarrow> max_size (vocab_defaults E) | Some m \<Rightarrow> m),
       min_freq = (case kw_min_freq kw of None \<Rightarrow> min_freq (vocab_defaults E) | Some m \<Rightarrow> m) \<rparr>"

text \<open>
  \<^verbatim>\<open>sklearn.model_selection.train_test_split(*arrays, test_size, random_state)\<close>, as its
  documentation gives it: the arrays must have one length; one selection of train and
  test indices is made from the number of samples, the test size and the seed; every
  array is indexed with both selections, and the result is the flat list
  \<^verbatim>\<open>[a_train, a_test, b_train, b_test, ...]\<close>.
\<close>

definition safe_indexing :: "'a list \<Rightarrow> nat list \<Rightarrow> error + 'a list" where
  "safe_indexing xs indices =
     comprehension (\<lambda>i. if i < length xs then Inr (xs ! i) else Inl (Raised IndexError [])) indices"

definition train_test_split :: "env \<Rightarrow> 'a list list \<Rightarrow> rat \<Rightarrow> int \<Rightarrow> error + 'a list list" where
  "train_test_split E arrays test_size random_state =
     (case arrays of
        [] \<Rightarrow> Inl (Raised ValueError [str ''At least one array required as input''])
      | a # _ \<Rightarrow>
          if list_ex (\<lambda>b. length b \<noteq> length a) arrays
          then Inl (Raised ValueError [str ''Found input variables with inconsistent numbers of samples''])
          else bind (shuffle_split E (length a) test_size random_state) (\<lambda>(train, test).
               bind (comprehension (\<lambda>arr.
                       bind (safe_indexing arr train) (\<lambda>arr_train.
                       bind (safe_indexing arr test) (\<lambda>arr_test.
                       Inr [arr_train, arr_test]))) arrays) (\<lambda>pairs.
               Inr (concat pairs))))"

section \<open>DatasetBuilder: loading and saving\<close>

text \<open>
  \<^verbatim>\<open>_load_text\<close>. The loop runs \<^verbatim>\<open>filelines\<close> times; each round reads one line, strips
  it and appends it to \<^verbatim>\<open>dataset\<close>. The text of the file is already decoded, so
  \<^verbatim>\<open>readline\<close> does not raise and the \<^verbatim>\<open>except\<close> clause is never evaluated.
\<close>

fun load_loop :: "nat \<Rightarrow> pystr \<Rightarrow> pystr list \<Rightarrow> pystr list" where
  "load_loop 0 textfile dataset = dataset"
| "load_loop (Suc n) textfile dataset =
     (let (raw, rest) = readline textfile;
          textline = replace_newline (rstrip raw)
      in load_loop n rest (dataset @ [textline]))"

definition load_text :: "env \<Rightarrow> world \<Rightarrow> path \<Rightarrow> error + pystr list" where
  "load_text E w p =
     bind (get_filelines E w p) (\<lambda>filelines.
     bind (open_read w p) (\<lambda>textfile.
     Inr (load_loop filelines textfile [])))"

text \<open>\<^verbatim>\<open>_save_as_json\<close> and \<^verbatim>\<open>_build_dataset_dir\<close>.\<close>

definition save_as_json :: "env \<Rightarrow> dataset \<Rightarrow> path \<Rightarrow> world \<Rightarrow> error + world" where
  "save_as_json E obj json_path w = write_text w json_path (json_dumps E obj)"

definition build_dataset_dir :: "env \<Rightarrow> path \<Rightarrow> world \<Rightarrow> error + world" where
  "build_dataset_dir E dataset_dir w = make_dir_if_not_exist E dataset_dir w"

section \<open>NERDatasetBuilder and SLUDatasetBuilder\<close>

text \<open>
  The attributes of a \<^verbatim>\<open>NERDatasetBuilder\<close>; a \<^verbatim>\<open>SLUDatasetBuilder\<close> has the same and
  three more for the class stream. A method takes the builder and the world and returns
  both as it leaves them, or the exception it raises.
\<close>

record dataset_builder =
  input_path :: path
  label_path :: path
  file_type :: pystr
  raw_input :: "pystr list"
  raw_label :: "pystr list"
  input_vocab :: "vocabulary option"
  label_vocab :: "vocabulary option"
  dataset_dir :: path
  train_data_path :: "path list"
  valid_data_path :: "path list"

record slu_builder = dataset_builder +
  class_path :: path
  raw_class :: "pystr list"
  class_vocab :: "vocabulary option"

text \<open>\<^verbatim>\<open>NERDatasetBuilder.__init__\<close>.\<close>

definition ner_init ::
  "env \<Rightarrow> path \<Rightarrow> path \<Rightarrow> pystr \<Rightarrow> vocabulary option \<Rightarrow> vocabulary option \<Rightarrow> path \<Rightarrow> world
     \<Rightarrow> error + (dataset_builder \<times> world)" where
  "ner_init E inp lab ftype ivocab lvocab ddir w =
     (if ftype = str ''text'' then
        bind (load_text E w inp) (\<lambda>rinput.
        bind (load_text E w lab) (\<lambda>rlabel.
        bind (build_dataset_dir E ddir w) (\<lambda>w'.
        Inr (\<lparr> input_path = inp, label_path = lab, file_type = ftype,
               raw_input = rinput, raw_label = rlabel,
               input_vocab = ivocab, label_vocab = lvocab, dataset_dir = ddir,
               train_data_path = [], valid_data_path = [] \<rparr>, w'))))
      else Inl (Raised NotImplementedError []))"

text \<open>\<^verbatim>\<open>SLUDatasetBuilder.__init__\<close>.\<close>

definition slu_init ::
  "env \<Rightarrow> path \<Rightarrow> path \<Rightarrow> path \<Rightarrow> pystr \<Rightarrow> vocabulary option \<Rightarrow> vocabulary option
     \<Rightarrow> vocabulary option \<Rightarrow> path \<Rightarrow> world \<Rightarrow> error + (slu_builder \<times> world)" where
  "slu_init E inp lab cls ftype ivocab lvocab cvocab ddir w =
     (if ftype = str ''text'' then
        bind (load_text E w inp) (\<lambda>rinput.
        bind (load_text E w lab) (\<lambda>rlabel.
        bind (load_text E w cls) (\<lambda>rclass.
        bind (build_dataset_dir E ddir w) (\<lambda>w'.
        Inr (\<lparr> input_path = inp, label_path = lab, file_type = ftype,
               raw_input = rinput, raw_label = rlabel,
               input_vocab = ivocab, label_vocab = lvocab, dataset_dir = ddir,
               train_data_path = [], valid_data_path = [],
               class_path = cls, raw_class = rclass, class_vocab = cvocab \<rparr>, w')))))
      else Inl (Raised NotImplementedError []))"

text \<open>
  \<^verbatim>\<open>NERDatasetBuilder.build_vocabulary\<close>: two vocabularies are constructed, fitted on
  the split lines and written to the dataset directory.
\<close>

definition ner_build_vocabulary ::
  "env \<Rightarrow> int option \<Rightarrow> int \<Rightarrow> dataset_builder \<Rightarrow> world \<Rightarrow> error + (dataset_builder \<times> world)" where
  "ner_build_vocabulary E maxsize minfreq b w =
     (let input_vocab_path = Div (dataset_dir b) (INPUT_VOCAB_FILENAME E);
          label_vocab_path = Div (dataset_dir b) (TAG_VOCAB_FILENAME E);
          ivocab = Vocabulary E (no_kwargs\<lparr> kw_max_size := Some maxsize, kw_min_freq := Some minfreq,
                                           kw_bos_token := Some None, kw_eos_token := Some None \<rparr>);
          lvocab = Vocabulary E (no_kwargs\<lparr> kw_unknown_token := Some None \<rparr>);
          input_data = splitify (raw_input b);
          label_data = splitify (raw_label b)
      in bind (fit E ivocab (map Tokens input_data)) (\<lambda>ivocab'.
         bind (fit E lvocab (map Tokens label_data)) (\<lambda>lvocab'.
         bind (to_json E ivocab' input_vocab_path w) (\<lambda>w1.
         bind (to_json E lvocab' label_vocab_path w1) (\<lambda>w2.
         Inr (b\<lparr> input_vocab := Some ivocab', label_vocab := Some lvocab' \<rparr>, w2))))))"

text \<open>
  \<^verbatim>\<open>SLUDatasetBuilder.build_vocabulary\<close>: the class vocabulary is fitted on
  \<^verbatim>\<open>self._raw_class\<close> itself.
\<close>

definition slu_build_vocabulary ::
  "env \<Rightarrow> int option \<Rightarrow> int \<Rightarrow> slu_builder \<Rightarrow> world \<Rightarrow> error + (slu_builder \<times> world)" where
  "slu_build_vocabulary E maxsize minfreq b w =
     (let input_vocab_path = Div (dataset_dir b) (INPUT_VOCAB_FILENAME E);
          label_vocab_path = Div (dataset_dir b) (TAG_VOCAB_FILENAME E);
          class_vocab_path = Div (dataset_dir b) (CLASS_VOCAB_FILENAME E);
          ivocab = Vocabulary E (no_kwargs\<lparr> kw_max_size := Some maxsize, kw_min_freq := Some minfreq,
                                           kw_bos_token := Some None, kw_eos_token := Some None \<rparr>);
          lvocab = Vocabulary E (no_kwargs\<lparr> kw_unknown_token := Some None \<rparr>);
          cvocab = Vocabulary E (no_kwargs\<lparr> kw_unknown_token := Some None, kw_padding_token := Some None,
                                           kw_bos_token := Some None, kw_eos_token := Some None \<rparr>);
          input_data = splitify (raw_input b);
          label_data = splitify (raw_label b);
          class_data = raw_class b
      in bind (fit E ivocab (map Tokens input_data)) (\<lambda>ivocab'.
         bind (fit E lvocab (map Tokens label_data)) (\<lambda>lvocab'.
         bind (fit E cvocab (map Raw class_data)) (\<lambda>cvocab'.
         bind (to_json E ivocab' input_vocab_path w) (\<lambda>w1.
         bind (to_json E lvocab' label_vocab_path w1) (\<lambda>w2.
         bind (to_json E cvocab' class_vocab_path w2) (\<lambda>w3.
         Inr (b\<lparr> input_vocab := Some ivocab', label_vocab := Some lvocab',
                  class_vocab := Some cvocab' \<rparr>, w3))))))))"

text \<open>
  \<^verbatim>\<open>_split_into_valid_and_train\<close> of the two classes: the flat list that
  \<^verbatim>\<open>train_test_split\<close> returns is unpacked into four, respectively six, names (a list of
  another length is a ValueError of the unpacking) and regrouped by partition.
\<close>

definition ner_split_into_valid_and_train ::
  "env \<Rightarrow> 'a list \<Rightarrow> 'a list \<Rightarrow> rat \<Rightarrow> int
     \<Rightarrow> error + (('a list \<times> 'a list) \<times> ('a list \<times> 'a list))" where
  "ner_split_into_valid_and_train E inp lab test_size random_state =
     bind (train_test_split E [inp, lab] test_size random_state) (\<lambda>r.
       case r of
         [input_train, input_test, label_train, label_test] \<Rightarrow>
           Inr ((input_train, label_train), (input_test, label_test))
       | _ \<Rightarrow> Inl (Raised ValueError [str ''wrong number of values to unpack'']))"

definition slu_split_into_valid_and_train ::
  "env \<Rightarrow> 'a list \<Rightarrow> 'a list \<Rightarrow> 'a list \<Rightarrow> rat \<Rightarrow> int
     \<Rightarrow> error + (('a list \<times> 'a list \<times> 'a list) \<times> ('a list \<times> 'a list \<times> 'a list))" where
  "slu_split_into_valid_and_train E inp lab cls test_size random_state =
     bind (train_test_split E [inp, lab, cls] test_size random_state) (\<lambda>r.
       case r of
         [input_train, input_test, label_train, label_test, class_train, class_test] \<Rightarrow>
           Inr ((input_train, label_train, class_train), (input_test, label_test, class_test))
       | _ \<Rightarrow> Inl (Raised ValueError [str ''wrong number of values to unpack'']))"

text \<open>The test both \<^verbatim>\<open>build_trainable_dataset\<close> methods start with.\<close>

definition vocab_missing :: "'a dataset_builder_scheme \<Rightarrow> bool" where
  "vocab_missing b = (input_vocab b = None \<or> label_vocab b = None)"

text \<open>
  \<^verbatim>\<open>NERDatasetBuilder.build_trainable_dataset\<close>; the split is called with its default
  test size 0.1 and \<^verbatim>\<open>RANDOM_SEED\<close>.
\<close>

definition ner_build_trainable_dataset ::
  "env \<Rightarrow> path option \<Rightarrow> path option \<Rightarrow> dataset_builder \<Rightarrow> world
     \<Rightarrow> error + (dataset_builder \<times> world)" where
  "ner_build_trainable_dataset E train_path valid_path b w =
     (if vocab_missing b then Inl (Raised ValueError [])
      else
        let train_path' = (case train_path of None \<Rightarrow> Div (dataset_dir b) (TRAIN_DATASET_FILENAME E) | Some p \<Rightarrow> p);
            valid_path' = (case valid_path of None \<Rightarrow> Div (dataset_dir b) (VALIDATION_DATASET_FILENAME E) | Some p \<Rightarrow> p)
        in bind (ner_split_into_valid_and_train E (raw_input b) (raw_label b) (1 / 10) (RANDOM_SEED E))
             (\<lambda>(train_raw_data, valid_raw_data).
           bind (numerize_from_text (fst train_raw_data) (input_vocab b)) (\<lambda>train_inputs.
           bind (numerize_from_text (snd train_raw_data) (label_vocab b)) (\<lambda>train_entities.
           bind (numerize_from_text (fst valid_raw_data) (input_vocab b)) (\<lambda>valid_inputs.
           bind (numerize_from_text (snd valid_raw_data) (label_vocab b)) (\<lambda>valid_entities.
           bind (save_as_json E [(str ''inputs'', train_inputs), (str ''entities'', train_entities)]
                   train_path' w) (\<lambda>w1.
           bind (save_as_json E [(str ''inputs'', valid_inputs), (str ''entities'', valid_entities)]
                   valid_path' w1) (\<lambda>w2.
           Inr (b\<lparr> train_data_path := train_data_path b @ [train_path'],
                    valid_data_path := valid_data_path b @ [valid_path'] \<rparr>, w2)))))))))"

text \<open>\<^verbatim>\<open>SLUDatasetBuilder.build_trainable_dataset\<close>.\<close>

definition slu_build_trainable_dataset ::
  "env \<Rightarrow> path option \<Rightarrow> path option \<Rightarrow> slu_builder \<Rightarrow> world
     \<Rightarrow> error + (slu_builder \<times> world)" where
  "slu_build_trainable_dataset E train_path valid_path b w =
     (if vocab_missing b then Inl (Raised ValueError [])
      else
        let train_path' = (case train_path of None \<Rightarrow> Div (dataset_dir b) (TRAIN_DATASET_FILENAME E) | Some p \<Rightarrow> p);
            valid_path' = (case valid_path of None \<Rightarrow> Div (dataset_dir b) (VALIDATION_DATASET_FILENAME E) | Some p \<Rightarrow> p)
        in bind (slu_split_into_valid_and_train E (raw_input b) (raw_label b) (raw_class b)
                   (1 / 10) (RANDOM_SEED E))
             (\<lambda>(train_raw_data, valid_raw_data).
           bind (numerize_from_text (fst train_raw_data) (input_vocab b)) (\<lambda>train_inputs.
           bind (numerize_from_text (fst (snd train_raw_data)) (label_vocab b)) (\<lambda>train_slots.
           bind (numerize_from_text (snd (snd train_raw_data)) (class_vocab b)) (\<lambda>train_intents.
           bind (numerize_from_text (fst valid_raw_data) (input_vocab b)) (\<lambda>valid_inputs.
           bind (numerize_from_text (fst (snd valid_raw_data)) (label_vocab b)) (\<lambda>valid_slots.
           bind (numerize_from_text (snd (snd valid_raw_data)) (class_vocab b)) (\<lambda>valid_intents.
           bind (save_as_json E [(str ''inputs'', train_inputs), (str ''slots'', train_slots),
                                 (str ''intents'', train_intents)] train_path' w) (\<lambda>w1.
           bind (save_as_json E [(str ''inputs'', valid_inputs), (str ''slots'', valid_slots),
                                 (str ''intents'', valid_intents)] valid_path' w1) (\<lambda>w2.
           Inr (b\<lparr> train_data_path := train_data_path b @ [train_path'],
                    valid_data_path := valid_data_path b @ [valid_path'] \<rparr>, w2)))))))))))"


section \<open>The facade of \<^verbatim>\<open>data_manager/utils.py\<close>\<close>

text \<open>
  \<^verbatim>\<open>dataset_configs\<close> is a dict; its keys are the fields here, with None for a key
  that is absent, and the values have the types the code uses them at.
\<close>

record dataset_configs =
  cfg_vocab_path :: "pystr option"
  cfg_input :: "pystr option"
  cfg_label :: "pystr option"
  cfg_slots :: "pystr option"
  cfg_intents :: "pystr option"
  cfg_vocab_min_freq :: "int option"

definition getitem :: "pystr option \<Rightarrow> string \<Rightarrow> error + pystr" where
  "getitem v key = (case v of None \<Rightarrow> Inl (Raised KeyError [str key]) | Some s \<Rightarrow> Inr s)"

datatype builder = NER dataset_builder | WordSegment ws_builder | SLU slu_builder

text \<open>\<^verbatim>\<open>load_vocab_file\<close>: the vocabulary a new object holds after \<^verbatim>\<open>from_json\<close>.\<close>

definition load_vocab_file :: "env \<Rightarrow> path \<Rightarrow> world \<Rightarrow> error + vocabulary" where
  "load_vocab_file E file_path w = from_json E (Vocabulary E no_kwargs) file_path w"

text \<open>\<^verbatim>\<open>builder.build_vocabulary(...)\<close> and \<^verbatim>\<open>builder.build_trainable_dataset()\<close>, by class.\<close>

fun build_vocabulary :: "env \<Rightarrow> int \<Rightarrow> builder \<Rightarrow> world \<Rightarrow> error + (builder \<times> world)" where
  "build_vocabulary E minfreq (NER b) w =
     bind (ner_build_vocabulary E None minfreq b w) (\<lambda>(b', w'). Inr (NER b', w'))"
| "build_vocabulary E minfreq (WordSegment b) w =
     bind (ws_build_vocabulary E (Some minfreq) b w) (\<lambda>(b', w'). Inr (WordSegment b', w'))"
| "build_vocabulary E minfreq (SLU b) w =
     bind (slu_build_vocabulary E None minfreq b w) (\<lambda>(b', w'). Inr (SLU b', w'))"

fun build_vocabulary_default :: "env \<Rightarrow> builder \<Rightarrow> world \<Rightarrow> error + (builder \<times> world)" where
  "build_vocabulary_default E (NER b) w =
     bind (ner_build_vocabulary E None 1 b w) (\<lambda>(b', w'). Inr (NER b', w'))"
| "build_vocabulary_default E (WordSegment b) w =
     bind (ws_build_vocabulary E None b w) (\<lambda>(b', w'). Inr (WordSegment b', w'))"
| "build_vocabulary_default E (SLU b) w =
     bind (slu_build_vocabulary E None 1 b w) (\<lambda>(b', w'). Inr (SLU b', w'))"

fun build_trainable_dataset :: "env \<Rightarrow> builder \<Rightarrow> world \<Rightarrow> error + (builder \<times> world)" where
  "build_trainable_dataset E (NER b) w =
     bind (ner_build_trainable_dataset E None None b w) (\<lambda>(b', w'). Inr (NER b', w'))"
| "build_trainable_dataset E (WordSegment b) w =
     bind (ws_build_trainable_dataset E b w) (\<lambda>(b', w'). Inr (WordSegment b', w'))"
| "build_trainable_dataset E (SLU b) w =
     bind (slu_build_trainable_dataset E None None b w) (\<lambda>(b', w'). Inr (SLU b', w'))"

text \<open>\<^verbatim>\<open>create_builder\<close>.\<close>

definition create_builder ::
  "env \<Rightarrow> pystr \<Rightarrow> dataset_configs \<Rightarrow> path \<Rightarrow> world \<Rightarrow> error + (builder \<times> world)" where
  "create_builder E type cfg deploy_path w =
     bind (case cfg_vocab_path cfg of
             Some p \<Rightarrow> bind (load_vocab_file E (Path p) w) (\<lambda>v. Inr (Some v))
           | None \<Rightarrow> Inr None) (\<lambda>ivocab.
     bind (if type = str ''ner'' then
             bind (getitem (cfg_input cfg) ''input'') (\<lambda>i.
             bind (getitem (cfg_label cfg) ''label'') (\<lambda>l.
             bind (ner_init E (Path i) (Path l) (str ''text'') ivocab None deploy_path w) (\<lambda>(b, w').
             Inr (NER b, w'))))
           else if type = str ''word_segment'' then
             bind (getitem (cfg_input cfg) ''input'') (\<lambda>i.
             bind (ws_init E (Path i) deploy_path ivocab w) (\<lambda>(b, w').
             Inr (WordSegment b, w')))
           else if type = str ''slu'' then
             bind (getitem (cfg_input cfg) ''input'') (\<lambda>i.
             bind (getitem (cfg_slots cfg) ''slots'') (\<lambda>l.
             bind (getitem (cfg_intents cfg) ''intents'') (\<lambda>c.
             bind (slu_init E (Path i) (Path l) (Path c) (str ''text'') ivocab None None deploy_path w)
               (\<lambda>(b, w').
             Inr (SLU b, w')))))
           else Inl (Raised NotImplementedError [])) (\<lambda>(b, w1).
     bind (case cfg_vocab_min_freq cfg of
             Some m \<Rightarrow> build_vocabulary E m b w1
           | None \<Rightarrow> build_vocabulary_default E b w1) (\<lambda>(b', w2).
     bind (build_trainable_dataset E b' w2) (\<lambda>(b'', w3).
     Inr (b'', w3)))))"

text \<open>
  \<^verbatim>\<open>load_vocab_dir\<close>. Each \<^verbatim>\<open>from_json\<close> call is made on a new vocabulary of its own, and
  the dict holds the objects as the calls left them.
\<close>

definition load_vocab_dir ::
  "env \<Rightarrow> pystr \<Rightarrow> path \<Rightarrow> world \<Rightarrow> error + (pystr \<Rightarrow> vocabulary option)" where
  "load_vocab_dir E type dir_path w =
     (if type = str ''ner'' \<or> type = str ''word_segment'' then
        let input_vocab_path = Div (Div dir_path (str ''dataset'')) (INPUT_VOCAB_FILENAME E);
            label_vocab_path = Div (Div dir_path (str ''dataset'')) (TAG_VOCAB_FILENAME E)
        in bind (from_json E (Vocabulary E no_kwargs) input_vocab_path w) (\<lambda>ivocab.
           bind (from_json E (Vocabulary E no_kwargs) label_vocab_path w) (\<lambda>lvocab.
           Inr [str ''input_vocab'' \<mapsto> ivocab, str ''label_vocab'' \<mapsto> lvocab]))
      else if type = str ''slu'' then
        let input_vocab_path = Div (Div dir_path (str ''dataset'')) (INPUT_VOCAB_FILENAME E);
            label_vocab_path = Div (Div dir_path (str ''dataset'')) (TAG_VOCAB_FILENAME E);
            class_vocab_path = Div (Div dir_path (str ''dataset'')) (CLASS_VOCAB_FILENAME E)
        in bind (from_json E (Vocabulary E no_kwargs) input_vocab_path w) (\<lambda>ivocab.
           bind (from_json E (Vocabulary E no_kwargs) label_vocab_path w) (\<lambda>lvocab.
           bind (from_json E (Vocabulary E no_kwargs) class_vocab_path w) (\<lambda>cvocab.
           Inr [str ''input_vocab'' \<mapsto> ivocab, str ''label_vocab'' \<mapsto> lvocab,
                str ''class_vocab'' \<mapsto> cvocab])))
      else Inl (Raised ValueError []))"


section \<open>Reference notions and concrete data\<close>

text \<open>
  The lines of a text, each with the line feed that ends it (the last one may have
  none), and a line with only its trailing line feed trimmed: the notions the
  description of \<^verbatim>\<open>_load_text\<close> is stated with.
\<close>
fun lines_from :: "pystr \<Rightarrow> pystr \<Rightarrow> pystr list" where
  "lines_from cur [] = (if cur = [] then [] else [cur])"
| "lines_from cur (c # cs) =
     (if c = 10 then (cur @ [c]) # lines_from [] cs else lines_from (cur @ [c]) cs)"

definition file_lines :: "pystr \<Rightarrow> pystr list" where
  "file_lines s = lines_from [] s"

definition chomp :: "pystr \<Rightarrow> pystr" where
  "chomp l = (if l \<noteq> [] \<and> last l = 10 then butlast l else l)"


text \<open>
  One concrete choice of the collaborators, a world with three aligned files of three
  lines, and a fitted vocabulary, for the concrete checks below.
\<close>

definition example_env :: env where
  "example_env =
     \<lparr> get_filelines = (\<lambda>w p. case files w p of None \<Rightarrow> Inl (Raised IOError [])
                               | Some c \<Rightarrow> Inr (length (filter (\<lambda>x. x = 10) c))),
       make_dir_if_not_exist = (\<lambda>p w. Inr (w\<lparr>dirs := insert p (dirs w)\<rparr>)),
       json_dumps = (\<lambda>d. concat (map fst d)),
       vocab_defaults =
         \<lparr> word_to_idx = [], idx_to_word = [],
           unknown_token = Some (str ''<unk>''), padding_token = Some (str ''<pad>''),
           bos_token = Some (str ''<bos>''), eos_token = Some (str ''<eos>''),
           max_size = None, min_freq = 1 \<rparr>,
       fit = (\<lambda>v d. Inr v),
       to_json = (\<lambda>v p w. write_text w p (str ''vocab'')),
       from_json = (\<lambda>v p w. bind (open_read w p) (\<lambda>c. Inr (v\<lparr>word_to_idx := [(c, 0)]\<rparr>))),
       shuffle_split = (\<lambda>n t r. if n = 3 then Inr ([2, 0], [1]) else Inl (Raised ValueError [])),
       INPUT_VOCAB_FILENAME = str ''input_vocab.json'',
       TAG_VOCAB_FILENAME = str ''tag_vocab.json'',
       CLASS_VOCAB_FILENAME = str ''class_vocab.json'',
       TRAIN_DATASET_FILENAME = str ''train.json'',
       VALIDATION_DATASET_FILENAME = str ''valid.json'',
       INSTANT_DATASET_FILENAME = str ''instant.json'',
       RANDOM_SEED = 49,
       ws_init = (\<lambda>p d v w. Inl (Raised NotImplementedError [])),
       ws_build_vocabulary = (\<lambda>m b w. Inr (b, w)),
       ws_build_trainable_dataset = (\<lambda>b w. Inr (b, w)) \<rparr>"

definition example_world :: world where
  "example_world =
     \<lparr> files = [Path (str ''in.txt'') \<mapsto> str ''a b \<newline>\<newline>c a\<newline>'',
                Path (str ''label.txt'') \<mapsto> str ''O B\<newline>\<newline>B O\<newline>'',
                Path (str ''class.txt'') \<mapsto> str ''x\<newline>y\<newline>x\<newline>''],
       dirs = {}, readonly = {} \<rparr>"

definition example_vocab :: vocabulary where
  "example_vocab =
     \<lparr> word_to_idx = [(str ''<unk>'', 0), (str ''b'', 1), (str ''c'', 2), (str ''a'', 3)],
       idx_to_word = [(0, str ''<unk>''), (1, str ''b''), (2, str ''c''), (3, str ''a'')],
       unknown_token = Some (str ''<unk>''), padding_token = None,
       bos_token = None, eos_token = None, max_size = None, min_freq = 1 \<rparr>"

definition raised_kind :: "error + 'a \<Rightarrow> exc_kind option" where
  "raised_kind r = (case r of Inl (Raised k args) \<Rightarrow> Some k | Inr x \<Rightarrow> None)"

definition raised_args :: "error + 'a \<Rightarrow> pystr list option" where
  "raised_args r = (case r of Inl (Raised k args) \<Rightarrow> Some args | Inr x \<Rightarrow> None)"

definition example_label_vocab :: vocabulary where
  "example_label_vocab =
     \<lparr> word_to_idx = [(str ''<pad>'', 0), (str ''O'', 1), (str ''B'', 2)],
       idx_to_word = [(0, str ''<pad>''), (1, str ''O''), (2, str ''B'')],
       unknown_token = None, padding_token = Some (str ''<pad>''),
       bos_token = None, eos_token = None, max_size = None, min_freq = 1 \<rparr>"

definition example_class_vocab :: vocabulary where
  "example_class_vocab =
     \<lparr> word_to_idx = [(str ''x'', 0), (str ''y'', 1)],
       idx_to_word = [(0, str ''x''), (1, str ''y'')],
       unknown_token = None, padding_token = None,
       bos_token = None, eos_token = None, max_size = None, min_freq = 1 \<rparr>"

definition example_ner :: dataset_builder where
  "example_ner =
     \<lparr> input_path = Path (str ''in.txt''), label_path = Path (str ''label.txt''),
       file_type = str ''text'',
       raw_input = [str ''a b'', [], str ''c a''], raw_label = [str ''O B'', [], str ''B O''],
       input_vocab = Some example_vocab, label_vocab = Some example_label_vocab,
       dataset_dir = Path (str ''out''), train_data_path = [], valid_data_path = [] \<rparr>"

definition example_slu :: slu_builder where
  "example_slu =
     \<lparr> input_path = Path (str ''in.txt''), label_path = Path (str ''label.txt''),
       file_type = str ''text'',
       raw_input = [str ''a b'', [], str ''c a''], raw_label = [str ''O B'', [], str ''B O''],
       input_vocab = Some example_vocab, label_vocab = Some example_label_vocab,
       dataset_dir = Path (str ''out''), train_data_path = [], valid_data_path = [],
       class_path = Path (str ''class.txt''), raw_class = [str ''x'', str ''y'', str ''x''],
       class_vocab = Some example_class_vocab \<rparr>"

definition example_configs :: dataset_configs where
  "example_configs =
     \<lparr> cfg_vocab_path = None, cfg_input = Some (str ''in.txt''), cfg_label = Some (str ''label.txt''),
       cfg_slots = Some (str ''label.txt''), cfg_intents = Some (str ''class.txt''),
       cfg_vocab_min_freq = None \<rparr>"

definition example_model_world :: world where
  "example_model_world =
     \<lparr> files = [Div (Div (Path (str ''model'')) (str ''dataset'')) (str ''input_vocab.json'') \<mapsto> str ''I'',
                Div (Div (Path (str ''model'')) (str ''dataset'')) (str ''tag_vocab.json'') \<mapsto> str ''T'',
                Div (Div (Path (str ''model'')) (str ''dataset'')) (str ''class_vocab.json'') \<mapsto> str ''C''],
       dirs = {}, readonly = {} \<rparr>"

section \<open>Properties of the shared methods\<close>

lemma bind_Inr_iff:
  "(bind m f = Inr y) = (\<exists>x. m = Inr x \<and> f x = Inr y)"
  by (cases m) (simp_all add: bind_def)

lemma comprehension_Inr_iff:
  "(comprehension f xs = Inr ys) =
     (length ys = length xs \<and> (\<forall>i<length xs. f (xs ! i) = Inr (ys ! i)))"
proof (induction xs arbitrary: ys)
  case Nil
  then show ?case by auto
next
  case (Cons x xs)
  show ?case
  proof (cases ys)
    case Nil
    then show ?thesis by (auto simp: bind_Inr_iff)
  next
    case (Cons y ys')
    then show ?thesis
      by (auto simp: bind_Inr_iff Cons.IH less_Suc_eq_0_disj)
  qed
qed

lemma comprehension_map:
  "comprehension f (map g xs) = comprehension (\<lambda>x. f (g x)) xs"
  by (induction xs) simp_all

lemma split_empty: "split [] = []"
  by (simp add: split_def)

text \<open>
  C1. \<^verbatim>\<open>_numerize_from_text(lines, vocab)\<close> returns a list \<open>out\<close> exactly when \<open>out\<close>
  has one entry per line, in the order of the lines, and entry \<open>i\<close> is what
  \<^verbatim>\<open>vocab.to_indices\<close> returns on the whitespace split of line \<open>i\<close>; the result is the
  comprehension of that composition over the lines. An empty line splits into no token
  and numerizes to the empty index sequence without an error.
\<close>

theorem numerize_from_text_per_line:
  "numerize_from_text lines (Some v) = comprehension (\<lambda>l. to_indices v (split l)) lines
   \<and> ((numerize_from_text lines (Some v) = Inr out) =
        (length out = length lines
         \<and> (\<forall>i<length lines. to_indices v (split (lines ! i)) = Inr (out ! i))))
   \<and> to_indices v (split []) = Inr []
   \<and> numerize_from_text [[]] (Some v) = Inr [[]]"
proof -
  have eq: "numerize_from_text ls (Some v) = comprehension (\<lambda>l. to_indices v (split l)) ls"
    for ls
    by (simp add: numerize_from_text_def splitify_def comprehension_map call_to_indices_def)
  have empty: "to_indices v (split []) = Inr []"
    by (simp add: split_empty to_indices_def)
  have "numerize_from_text [[]] (Some v) = Inr [[]]"
    by (simp add: eq empty bind_def)
  with eq empty show ?thesis
    by (simp add: comprehension_Inr_iff)
qed

theorem numerize_from_text_per_line_witness:
  "numerize_from_text [str ''a b  c'', [], str ''b z''] (Some example_vocab)
     = Inr [[3, 1, 2], [], [1, 0]]"
proof -
  let ?ls = "[str ''a b  c'', [], str ''b z'']"
  let ?out = "[[3, 1, 2], [], [1, 0 :: nat]]"
  have a: "to_indices example_vocab (split (str ''a b  c'')) = Inr [3, 1, 2]"
    by (simp add: to_indices_def split_def str_def isspace_def lookup_index_def
        example_vocab_def bind_def)
  have b: "to_indices example_vocab (split []) = Inr []"
    by (simp add: to_indices_def split_def)
  have c: "to_indices example_vocab (split (str ''b z'')) = Inr [1, 0]"
    by (simp add: to_indices_def split_def str_def isspace_def lookup_index_def
        example_vocab_def bind_def)
  have "\<forall>i<length ?ls. to_indices example_vocab (split (?ls ! i)) = Inr (?out ! i)"
  proof (intro allI impI)
    fix i
    assume "i < length ?ls"
    then have "i = 0 \<or> i = 1 \<or> i = 2" by auto
    then show "to_indices example_vocab (split (?ls ! i)) = Inr (?out ! i)"
      using a b c by auto
  qed
  moreover have "length ?out = length ?ls" by simp
  ultimately show ?thesis
    using numerize_from_text_per_line [of ?ls example_vocab ?out] by blast
qed


section \<open>Loading text\<close>

lemma readline_Cons:
  assumes "c \<noteq> 10"
  shows "readline (c # cs) = (c # fst (readline cs), snd (readline cs))"
proof (cases "dropWhile (\<lambda>c. c \<noteq> 10) cs")
  case Nil
  show ?thesis by (simp add: readline_def Nil assms)
next
  case (Cons nl rest)
  show ?thesis by (simp add: readline_def Cons assms)
qed

lemma readline_newline: "readline (10 # cs) = ([10], cs)"
  by (simp add: readline_def)

lemma lines_from_readline:
  "lines_from cur s =
     (if cur @ s = [] then []
      else (cur @ fst (readline s)) # lines_from [] (snd (readline s)))"
proof (induction s arbitrary: cur)
  case Nil
  then show ?case by (simp add: readline_def)
next
  case (Cons c cs)
  show ?case
  proof (cases "c = 10")
    case True
    then show ?thesis by (simp add: readline_newline)
  next
    case False
    then show ?thesis
      using Cons.IH[of "cur @ [c]"] by (simp add: readline_Cons)
  qed
qed

lemma file_lines_readline:
  "file_lines s = (if s = [] then [] else fst (readline s) # file_lines (snd (readline s)))"
  using lines_from_readline[of "[]" s] by (simp add: file_lines_def)

lemma readline_empty: "readline [] = ([], [])"
  by (simp add: readline_def)

lemma isspace_newline: "isspace 10"
  by (simp add: isspace_def)

lemma rstrip_empty: "rstrip [] = []"
  by (simp add: rstrip_def)

lemma set_rstrip: "set (rstrip s) \<subseteq> set s"
  using set_dropWhileD[of _ isspace "rev s"] by (auto simp: rstrip_def)

lemma rstrip_decompose:
  "\<exists>ws. s = rstrip s @ ws \<and> list_all isspace ws"
proof -
  have "rev s = takeWhile isspace (rev s) @ dropWhile isspace (rev s)" by simp
  then have "s = rev (dropWhile isspace (rev s)) @ rev (takeWhile isspace (rev s))"
    by (metis rev_append rev_rev_ident)
  moreover have "list_all isspace (rev (takeWhile isspace (rev s)))"
    by (simp add: list_all_iff) (meson set_takeWhileD)
  ultimately show ?thesis unfolding rstrip_def by blast
qed

lemma rstrip_last: "rstrip s \<noteq> [] \<Longrightarrow> \<not> isspace (last (rstrip s))"
  using hd_dropWhile[of isspace "rev s"] by (simp add: rstrip_def last_rev)

lemma readline_newline_only_last:
  "10 \<notin> set (butlast (fst (readline s)))"
proof (induction s)
  case Nil
  then show ?case by (simp add: readline_def)
next
  case (Cons c cs)
  then show ?case
    by (cases "c = 10") (auto simp: readline_newline readline_Cons split: if_splits)
qed

lemma rstrip_snoc_space: "isspace c \<Longrightarrow> rstrip (t @ [c]) = rstrip t"
  by (simp add: rstrip_def)

lemma replace_newline_rstrip_readline:
  "replace_newline (rstrip (fst (readline s))) = rstrip (fst (readline s))"
proof -
  let ?l = "fst (readline s)"
  have "10 \<notin> set (rstrip ?l)"
  proof (cases "?l = []")
    case True
    then show ?thesis by (simp add: rstrip_empty)
  next
    case False
    then have l: "?l = butlast ?l @ [last ?l]" by simp
    show ?thesis
    proof (cases "isspace (last ?l)")
      case True
      then have "rstrip ?l = rstrip (butlast ?l)"
        using l rstrip_snoc_space by metis
      then show ?thesis
        using set_rstrip[of "butlast ?l"] readline_newline_only_last[of s] by auto
    next
      case False
      then have "last ?l \<noteq> 10" using isspace_newline by auto
      then have "10 \<notin> set ?l"
        using l readline_newline_only_last[of s]
        by (metis insert_iff list.set(2) rotate1.simps(2) set_rotate1)
      then show ?thesis using set_rstrip[of ?l] by auto
    qed
  qed
  then show ?thesis by (auto simp: replace_newline_def filter_id_conv)
qed

lemma load_loop_lines:
  "load_loop n s acc =
     acc @ map rstrip (take n (file_lines s)) @ replicate (n - length (file_lines s)) []"
proof (induction n arbitrary: s acc)
  case 0
  then show ?case by simp
next
  case (Suc n)
  show ?case
  proof (cases "s = []")
    case True
    have "load_loop (Suc n) [] acc = load_loop n [] (acc @ [[]])"
      by (simp add: readline_empty rstrip_empty replace_newline_def)
    then show ?thesis
      using True Suc.IH[of "[]" "acc @ [[]]"]
      by (simp add: file_lines_readline[of "[]"] replicate_app_Cons_same)
  next
    case False
    obtain l rest where r: "readline s = (l, rest)" by (cases "readline s")
    have fl: "file_lines s = l # file_lines rest"
      using False r file_lines_readline[of s] by simp
    have "replace_newline (rstrip l) = rstrip l"
      using replace_newline_rstrip_readline[of s] r by simp
    then have "load_loop (Suc n) s acc = load_loop n rest (acc @ [rstrip l])"
      using r by simp
    then show ?thesis
      using Suc.IH[of rest "acc @ [rstrip l]"] fl by simp
  qed
qed


lemma list_of_length_3: "length xs = 3 \<Longrightarrow> xs = [xs ! 0, xs ! 1, xs ! 2]"
  by (auto simp: numeral_3_eq_3 length_Suc_conv)

text \<open>
  C8, as the code has it. When \<^verbatim>\<open>get_filelines\<close> gives \<open>n\<close> for a readable file,
  \<^verbatim>\<open>_load_text\<close> returns exactly \<open>n\<close> entries. Entry \<open>i\<close> is line \<open>i\<close> of the file with
  all of its trailing whitespace removed, the line feed included: the line is the
  entry followed by whitespace only, and the entry does not end in whitespace. An
  empty line gives the empty string, and a round past the end of the file gives the
  empty string too. Nothing is raised.
\<close>

theorem load_text_entries:
  assumes "get_filelines E w p = Inr n" and "files w p = Some content"
  shows "\<exists>ds. load_text E w p = Inr ds \<and> length ds = n
     \<and> (\<forall>i<n. if i < length (file_lines content)
              then ds ! i = rstrip (file_lines content ! i)
                   \<and> (\<exists>ws. file_lines content ! i = ds ! i @ ws \<and> list_all isspace ws)
                   \<and> (ds ! i \<noteq> [] \<longrightarrow> \<not> isspace (last (ds ! i)))
                   \<and> (file_lines content ! i = [10] \<longrightarrow> ds ! i = [])
              else ds ! i = [])"
proof -
  let ?L = "file_lines content"
  let ?ds = "map rstrip (take n ?L) @ replicate (n - length ?L) []"
  have ld: "load_text E w p = Inr ?ds"
    using assms load_loop_lines[of n content "[]"]
    by (simp add: load_text_def open_read_def bind_def)
  have len: "length ?ds = n" by simp
  have ent: "?ds ! i = rstrip (?L ! i)" if "i < n" "i < length ?L" for i
    using that by (simp add: nth_append)
  have pad: "?ds ! i = []" if "i < n" "\<not> i < length ?L" for i
    using that by (simp add: nth_append)
  have one: "rstrip [10] = []"
    by (simp add: rstrip_def isspace_def)
  have "\<forall>i<n. if i < length ?L
              then ?ds ! i = rstrip (?L ! i)
                   \<and> (\<exists>ws. ?L ! i = ?ds ! i @ ws \<and> list_all isspace ws)
                   \<and> (?ds ! i \<noteq> [] \<longrightarrow> \<not> isspace (last (?ds ! i)))
                   \<and> (?L ! i = [10] \<longrightarrow> ?ds ! i = [])
              else ?ds ! i = []"
  proof (intro allI impI)
    fix i assume i: "i < n"
    show "if i < length ?L
              then ?ds ! i = rstrip (?L ! i)
                   \<and> (\<exists>ws. ?L ! i = ?ds ! i @ ws \<and> list_all isspace ws)
                   \<and> (?ds ! i \<noteq> [] \<longrightarrow> \<not> isspace (last (?ds ! i)))
                   \<and> (?L ! i = [10] \<longrightarrow> ?ds ! i = [])
              else ?ds ! i = []"
    proof (cases "i < length ?L")
      case True
      have e: "?ds ! i = rstrip (?L ! i)" using ent[OF i True] .
      show ?thesis
        unfolding e using True rstrip_decompose[of "?L ! i"] rstrip_last[of "?L ! i"] one
        by auto
    next
      case False
      then show ?thesis using pad[OF i False] by simp
    qed
  qed
  with ld len show ?thesis by blast
qed

theorem load_text_entries_witness:
  "load_text example_env example_world (Path (str ''in.txt'')) = Inr [str ''a b'', [], str ''c a'']"
proof -
  let ?c = "str ''a b \<newline>\<newline>c a\<newline>''"
  have g: "get_filelines example_env example_world (Path (str ''in.txt'')) = Inr 3"
    by (simp add: example_env_def example_world_def str_def)
  have f: "files example_world (Path (str ''in.txt'')) = Some ?c"
    by (simp add: example_world_def str_def)
  have L: "file_lines ?c = [str ''a b \<newline>'', str ''\<newline>'', str ''c a\<newline>'']"
    by (simp add: file_lines_def str_def)
  have r: "rstrip (str ''a b \<newline>'') = str ''a b''" "rstrip (str ''\<newline>'') = []"
    "rstrip (str ''c a\<newline>'') = str ''c a''"
    by (simp_all add: rstrip_def isspace_def str_def)
  from load_text_entries[OF g f] obtain ds where
    ld: "load_text example_env example_world (Path (str ''in.txt'')) = Inr ds"
    and len: "length ds = 3"
    and ent: "\<forall>i<3. if i < length (file_lines ?c)
              then ds ! i = rstrip (file_lines ?c ! i)
                   \<and> (\<exists>ws. file_lines ?c ! i = ds ! i @ ws \<and> list_all isspace ws)
                   \<and> (ds ! i \<noteq> [] \<longrightarrow> \<not> isspace (last (ds ! i)))
                   \<and> (file_lines ?c ! i = [10] \<longrightarrow> ds ! i = [])
              else ds ! i = []"
    by blast
  have "ds ! 0 = str ''a b''" "ds ! 1 = []" "ds ! 2 = str ''c a''"
    using ent[rule_format, of 0] ent[rule_format, of 1] ent[rule_format, of 2] r
    by (simp_all add: L)
  moreover have "ds = [ds ! 0, ds ! 1, ds ! 2]"
    using len by (rule list_of_length_3)
  ultimately have "ds = [str ''a b'', [], str ''c a'']"
    by simp
  with ld show ?thesis by simp
qed

text \<open>
  C8 as stated fails: on a line that ends in a blank before its line feed the entry is
  not the line with only the line feed trimmed (\<open>chomp\<close>), since \<^verbatim>\<open>rstrip()\<close> removes
  the blank as well.
\<close>

theorem load_text_trims_more_than_newline:
  "get_filelines example_env example_world (Path (str ''in.txt''))
     = Inr (length (file_lines (str ''a b \<newline>\<newline>c a\<newline>'')))
   \<and> files example_world (Path (str ''in.txt'')) = Some (str ''a b \<newline>\<newline>c a\<newline>'')
   \<and> map chomp (file_lines (str ''a b \<newline>\<newline>c a\<newline>'')) = [str ''a b '', [], str ''c a'']
   \<and> load_text example_env example_world (Path (str ''in.txt''))
       \<noteq> Inr (map chomp (file_lines (str ''a b \<newline>\<newline>c a\<newline>'')))"
proof -
  let ?c = "str ''a b \<newline>\<newline>c a\<newline>''"
  have L: "file_lines ?c = [str ''a b \<newline>'', str ''\<newline>'', str ''c a\<newline>'']"
    by (simp add: file_lines_def str_def)
  have g: "get_filelines example_env example_world (Path (str ''in.txt'')) = Inr 3"
    by (simp add: example_env_def example_world_def str_def)
  have f: "files example_world (Path (str ''in.txt'')) = Some ?c"
    by (simp add: example_world_def str_def)
  have c: "map chomp (file_lines ?c) = [str ''a b '', [], str ''c a'']"
    by (simp add: L) (simp add: chomp_def str_def)
  have "load_text example_env example_world (Path (str ''in.txt''))
          = Inr [str ''a b'', [], str ''c a'']"
    by (simp add: load_text_def g open_read_def f bind_def numeral_3_eq_3)
       (simp add: readline_def rstrip_def replace_newline_def isspace_def str_def)
  moreover have "str ''a b'' \<noteq> str ''a b ''" by (simp add: str_def)
  ultimately show ?thesis using L g f c by simp
qed

section \<open>Errors of the builders\<close>

text \<open>
  C9, as the code has it. Constructing a NER or SLU builder with a \<^verbatim>\<open>file_type\<close> other than
  \<^verbatim>\<open>'text'\<close> raises NotImplementedError, before anything is read. \<^verbatim>\<open>create_builder\<close> with a
  task type other than \<^verbatim>\<open>'ner'\<close>, \<^verbatim>\<open>'word_segment'\<close> and \<^verbatim>\<open>'slu'\<close> raises
  NotImplementedError as well, unless loading the vocabulary file that the configuration
  names has already failed.
\<close>

theorem unsupported_raises_NotImplementedError:
  "(ftype \<noteq> str ''text'' \<longrightarrow>
      ner_init E i l ftype iv lv d w = Inl (Raised NotImplementedError [])
      \<and> slu_init E i l c ftype iv lv cv d w = Inl (Raised NotImplementedError []))
   \<and> (type \<noteq> str ''ner'' \<and> type \<noteq> str ''word_segment'' \<and> type \<noteq> str ''slu'' \<longrightarrow>
        create_builder E type cfg dp w =
          (case cfg_vocab_path cfg of
             None \<Rightarrow> Inl (Raised NotImplementedError [])
           | Some p \<Rightarrow>
               (case load_vocab_file E (Path p) w of
                  Inl e \<Rightarrow> Inl e
                | Inr v \<Rightarrow> Inl (Raised NotImplementedError []))))"
  by (simp add: ner_init_def slu_init_def create_builder_def bind_def
      split: option.splits sum.splits)

theorem unsupported_raises_NotImplementedError_witness:
  "ner_init example_env (Path (str ''in.txt'')) (Path (str ''label.txt'')) (str ''json'')
       None None (Path (str ''out'')) example_world = Inl (Raised NotImplementedError [])
   \<and> slu_init example_env (Path (str ''in.txt'')) (Path (str ''label.txt''))
       (Path (str ''class.txt'')) (str ''json'') None None None (Path (str ''out'')) example_world
       = Inl (Raised NotImplementedError [])
   \<and> create_builder example_env (str ''pos'') example_configs (Path (str ''out'')) example_world
       = Inl (Raised NotImplementedError [])"
proof -
  have "str ''json'' \<noteq> str ''text''" by (simp add: str_def)
  moreover have "str ''pos'' \<noteq> str ''ner'' \<and> str ''pos'' \<noteq> str ''word_segment''
      \<and> str ''pos'' \<noteq> str ''slu''"
    by (simp add: str_def)
  moreover have "cfg_vocab_path example_configs = None" by (simp add: example_configs_def)
  ultimately show ?thesis
    using unsupported_raises_NotImplementedError
      [of "str ''json''" example_env "Path (str ''in.txt'')" "Path (str ''label.txt'')"
          None None "Path (str ''out'')" example_world "Path (str ''class.txt'')" None
          "str ''pos''" example_configs "Path (str ''out'')"]
    by simp
qed

text \<open>
  C9 as stated fails: the exception for an unsupported \<^verbatim>\<open>file_type\<close> or task type is a
  NotImplementedError, not a ConfigurationError.
\<close>

theorem unsupported_is_not_ConfigurationError:
  "raised_kind (ner_init example_env (Path (str ''in.txt'')) (Path (str ''label.txt''))
       (str ''json'') None None (Path (str ''out'')) example_world) = Some NotImplementedError
   \<and> raised_kind (create_builder example_env (str ''pos'') example_configs (Path (str ''out''))
       example_world) = Some NotImplementedError
   \<and> NotImplementedError \<noteq> ConfigurationError"
  by (simp add: raised_kind_def ner_init_def create_builder_def example_configs_def bind_def str_def)

text \<open>
  C10, as the code has it. The exceptions the builders raise themselves are constructed
  without arguments, so they carry no message: the ValueError of
  \<^verbatim>\<open>build_trainable_dataset\<close> when the input or the label vocabulary is None, and the
  NotImplementedError of the constructors for a \<^verbatim>\<open>file_type\<close> other than \<^verbatim>\<open>'text'\<close>.
\<close>

theorem builder_errors_carry_no_message:
  "(vocab_missing b \<longrightarrow>
      raised_args (ner_build_trainable_dataset E tp vp b w) = Some [])
   \<and> (vocab_missing sb \<longrightarrow>
      raised_args (slu_build_trainable_dataset E tp vp sb w) = Some [])
   \<and> (ftype \<noteq> str ''text'' \<longrightarrow>
      raised_args (ner_init E i l ftype iv lv d w) = Some []
      \<and> raised_args (slu_init E i l c ftype iv lv cv d w) = Some [])"
  by (simp add: raised_args_def ner_build_trainable_dataset_def slu_build_trainable_dataset_def
      ner_init_def slu_init_def)

theorem builder_errors_carry_no_message_witness:
  "raised_args (ner_build_trainable_dataset example_env None None
       (example_ner\<lparr>input_vocab := None\<rparr>) example_world) = Some []
   \<and> raised_args (slu_build_trainable_dataset example_env None None
       (example_slu\<lparr>label_vocab := None\<rparr>) example_world) = Some []
   \<and> raised_args (ner_init example_env (Path (str ''in.txt'')) (Path (str ''label.txt''))
       (str ''json'') None None (Path (str ''out'')) example_world) = Some []
   \<and> raised_args (slu_init example_env (Path (str ''in.txt'')) (Path (str ''label.txt''))
       (Path (str ''class.txt'')) (str ''json'') None None None (Path (str ''out'')) example_world)
       = Some []"
proof -
  have "vocab_missing (example_ner\<lparr>input_vocab := None\<rparr>)"
    by (simp add: vocab_missing_def)
  moreover have "vocab_missing (example_slu\<lparr>label_vocab := None\<rparr>)"
    by (simp add: vocab_missing_def)
  moreover have "str ''json'' \<noteq> str ''text''" by (simp add: str_def)
  ultimately show ?thesis
    using builder_errors_carry_no_message
      [of "example_ner\<lparr>input_vocab := None\<rparr>" example_env None None example_world
          "example_slu\<lparr>label_vocab := None\<rparr>" "str ''json''"
          "Path (str ''in.txt'')" "Path (str ''label.txt'')" None None "Path (str ''out'')"
          "Path (str ''class.txt'')" None]
    by simp
qed

text \<open>
  C10 as stated fails: \<^verbatim>\<open>build_trainable_dataset\<close> on a builder without an input
  vocabulary raises \<^verbatim>\<open>ValueError()\<close>, whose argument tuple is empty; no precondition is
  named.
\<close>

theorem build_before_vocabulary_has_no_message:
  "ner_build_trainable_dataset example_env None None (example_ner\<lparr>input_vocab := None\<rparr>)
       example_world = Inl (Raised ValueError [])
   \<and> raised_args (ner_build_trainable_dataset example_env None None
       (example_ner\<lparr>input_vocab := None\<rparr>) example_world) = Some []"
  by (simp add: raised_args_def ner_build_trainable_dataset_def vocab_missing_def)

section \<open>Building the trainable dataset\<close>

lemma bind_Inl: "bind (Inl e) f = Inl e"
  by (simp add: bind_def)

lemma bind_Inr: "bind (Inr x) f = f x"
  by (simp add: bind_def)

lemma numerize_from_text_None:
  "numerize_from_text ls None = (if ls = [] then Inr [] else Inl none_has_no_to_indices)"
  by (cases ls) (simp_all add: numerize_from_text_def splitify_def call_to_indices_def bind_def)

lemma example_ner_split:
  "ner_split_into_valid_and_train example_env [str ''a b'', [], str ''c a'']
       [str ''O B'', [], str ''B O''] (1 / 10) 49
     = Inr (([str ''c a'', str ''a b''], [str ''B O'', str ''O B'']), ([[]], [[]]))"
  by (simp add: ner_split_into_valid_and_train_def train_test_split_def safe_indexing_def
      example_env_def bind_def)

lemma example_slu_split:
  "slu_split_into_valid_and_train example_env [str ''a b'', [], str ''c a'']
       [str ''O B'', [], str ''B O''] [str ''x'', str ''y'', str ''x''] (1 / 10) 49
     = Inr (([str ''c a'', str ''a b''], [str ''B O'', str ''O B''], [str ''x'', str ''x'']),
            ([[]], [[]], [str ''y'']))"
  by (simp add: slu_split_into_valid_and_train_def train_test_split_def safe_indexing_def
      example_env_def bind_def)

lemma example_numerize:
  "numerize_from_text [str ''c a'', str ''a b''] (Some example_vocab) = Inr [[2, 3], [3, 1]]"
  "numerize_from_text [str ''B O'', str ''O B''] (Some example_label_vocab) = Inr [[2, 1], [1, 2]]"
  "numerize_from_text [str ''x'', str ''x''] (Some example_class_vocab) = Inr [[0], [0]]"
  "numerize_from_text [str ''y''] (Some example_class_vocab) = Inr [[1]]"
  "numerize_from_text [[]] (Some v) = Inr [[]]"
  by (simp_all add: numerize_from_text_def splitify_def call_to_indices_def to_indices_def
      split_def str_def isspace_def lookup_index_def example_vocab_def example_label_vocab_def
      example_class_vocab_def bind_def)


text \<open>
  C4, at the input where the code departs from it. An SLU builder holds an input and a
  label vocabulary and no class vocabulary. The test at the head of
  \<^verbatim>\<open>build_trainable_dataset\<close> looks at the input and the label vocabulary only, so it
  passes; the corpus is split, the train inputs and slots are numerized, and numerizing
  the train class stream against None raises AttributeError. Nothing is written. The
  ValueError that the same test raises in both classes when the input or the label
  vocabulary is missing is not raised for the class vocabulary.
\<close>

theorem slu_build_without_class_vocabulary:
  "input_vocab (example_slu\<lparr>class_vocab := None\<rparr>) = Some example_vocab
   \<and> label_vocab (example_slu\<lparr>class_vocab := None\<rparr>) = Some example_label_vocab
   \<and> class_vocab (example_slu\<lparr>class_vocab := None\<rparr>) = None
   \<and> slu_build_trainable_dataset example_env None None (example_slu\<lparr>class_vocab := None\<rparr>)
        example_world = Inl none_has_no_to_indices
   \<and> raised_kind (slu_build_trainable_dataset example_env None None
        (example_slu\<lparr>class_vocab := None\<rparr>) example_world) = Some AttributeError
   \<and> slu_build_trainable_dataset example_env None None (example_slu\<lparr>label_vocab := None\<rparr>)
        example_world = Inl (Raised ValueError [])
   \<and> ner_build_trainable_dataset example_env None None (example_ner\<lparr>label_vocab := None\<rparr>)
        example_world = Inl (Raised ValueError [])"
proof -
  have v: "input_vocab example_slu = Some example_vocab"
    "label_vocab example_slu = Some example_label_vocab"
    by (simp_all add: example_slu_def)
  have s: "slu_split_into_valid_and_train example_env (raw_input example_slu)
      (raw_label example_slu) (raw_class example_slu) (1 / 10) (RANDOM_SEED example_env)
      = Inr (([str ''c a'', str ''a b''], [str ''B O'', str ''O B''], [str ''x'', str ''x'']),
            ([[]], [[]], [str ''y'']))"
    using example_slu_split by (simp add: example_slu_def example_env_def)
  have r: "slu_build_trainable_dataset example_env None None (example_slu\<lparr>class_vocab := None\<rparr>)
        example_world = Inl none_has_no_to_indices"
    by (simp add: slu_build_trainable_dataset_def vocab_missing_def Let_def v s bind_Inr bind_Inl
        example_numerize numerize_from_text_None)
  have k: "raised_kind (Inl none_has_no_to_indices :: error + slu_builder \<times> world)
      = Some AttributeError"
    by (simp add: raised_kind_def none_has_no_to_indices_def)
  have a: "slu_build_trainable_dataset example_env None None (example_slu\<lparr>label_vocab := None\<rparr>)
        example_world = Inl (Raised ValueError [])"
    by (simp add: slu_build_trainable_dataset_def vocab_missing_def)
  have b: "ner_build_trainable_dataset example_env None None (example_ner\<lparr>label_vocab := None\<rparr>)
        example_world = Inl (Raised ValueError [])"
    by (simp add: ner_build_trainable_dataset_def vocab_missing_def)
  from v r k a b show ?thesis by simp
qed

text \<open>
  C5. In \<^verbatim>\<open>SLUDatasetBuilder.build_trainable_dataset\<close> the test covers the input and the
  label vocabulary only: a builder that has both and whose class vocabulary is None
  passes it, and once the split and the numerization of the train inputs and slots have
  succeeded, numerizing the (non-empty) train class stream against None raises the
  AttributeError of \<^verbatim>\<open>None.to_indices\<close>.
\<close>

theorem slu_class_vocabulary_not_checked:
  assumes "input_vocab sb = Some iv" and "label_vocab sb = Some lv" and "class_vocab sb = None"
  shows "\<not> vocab_missing sb
     \<and> (\<forall>tr va ti ts.
          slu_split_into_valid_and_train E (raw_input sb) (raw_label sb) (raw_class sb) (1 / 10)
              (RANDOM_SEED E) = Inr (tr, va)
          \<and> numerize_from_text (fst tr) (Some iv) = Inr ti
          \<and> numerize_from_text (fst (snd tr)) (Some lv) = Inr ts
          \<and> snd (snd tr) \<noteq> []
          \<longrightarrow> slu_build_trainable_dataset E tp vp sb w = Inl none_has_no_to_indices)"
proof (intro conjI allI impI)
  show "\<not> vocab_missing sb"
    using assms by (simp add: vocab_missing_def)
next
  fix tr va ti ts
  assume a: "slu_split_into_valid_and_train E (raw_input sb) (raw_label sb) (raw_class sb) (1 / 10)
              (RANDOM_SEED E) = Inr (tr, va)
          \<and> numerize_from_text (fst tr) (Some iv) = Inr ti
          \<and> numerize_from_text (fst (snd tr)) (Some lv) = Inr ts
          \<and> snd (snd tr) \<noteq> []"
  then have "numerize_from_text (snd (snd tr)) None = Inl none_has_no_to_indices"
    by (simp add: numerize_from_text_None)
  with a assms show "slu_build_trainable_dataset E tp vp sb w = Inl none_has_no_to_indices"
    by (simp add: slu_build_trainable_dataset_def vocab_missing_def bind_def Let_def)
qed

theorem slu_class_vocabulary_not_checked_witness:
  "\<not> vocab_missing (example_slu\<lparr>class_vocab := None\<rparr>)
   \<and> slu_build_trainable_dataset example_env None None (example_slu\<lparr>class_vocab := None\<rparr>)
        example_world = Inl none_has_no_to_indices"
proof -
  let ?sb = "example_slu\<lparr>class_vocab := None\<rparr>"
  have v: "input_vocab ?sb = Some example_vocab" "label_vocab ?sb = Some example_label_vocab"
    "class_vocab ?sb = None"
    by (simp_all add: example_slu_def)
  have s: "slu_split_into_valid_and_train example_env (raw_input ?sb) (raw_label ?sb)
      (raw_class ?sb) (1 / 10) (RANDOM_SEED example_env)
      = Inr (([str ''c a'', str ''a b''], [str ''B O'', str ''O B''], [str ''x'', str ''x'']),
            ([[]], [[]], [str ''y'']))"
    using example_slu_split by (simp add: example_slu_def example_env_def)
  note T = slu_class_vocabulary_not_checked[OF v, of example_env None None example_world]
  from T have "\<not> vocab_missing ?sb" by blast
  moreover from T s have "slu_build_trainable_dataset example_env None None ?sb example_world
      = Inl none_has_no_to_indices"
    using example_numerize(1,2) by fastforce
  ultimately show ?thesis by simp
qed

section \<open>Splitting into train and valid partitions\<close>

lemma safe_indexing_Inr_iff:
  "(safe_indexing xs idx = Inr ys) = ((\<forall>i\<in>set idx. i < length xs) \<and> ys = map (nth xs) idx)"
proof (induction idx arbitrary: ys)
  case Nil
  then show ?case by (auto simp: safe_indexing_def)
next
  case (Cons i idx)
  then show ?case
    by (auto simp: safe_indexing_def bind_Inr_iff)
qed

lemma train_test_split_two:
  "(train_test_split E [a, b] ts rs = Inr r) =
     (length b = length a \<and>
      (\<exists>train test. shuffle_split E (length a) ts rs = Inr (train, test)
         \<and> (\<forall>i\<in>set (train @ test). i < length a)
         \<and> r = [map (nth a) train, map (nth a) test, map (nth b) train, map (nth b) test]))"
  by (auto simp: train_test_split_def bind_Inr_iff safe_indexing_Inr_iff)

lemma train_test_split_three:
  "(train_test_split E [a, b, c] ts rs = Inr r) =
     (length b = length a \<and> length c = length a \<and>
      (\<exists>train test. shuffle_split E (length a) ts rs = Inr (train, test)
         \<and> (\<forall>i\<in>set (train @ test). i < length a)
         \<and> r = [map (nth a) train, map (nth a) test, map (nth b) train, map (nth b) test,
                 map (nth c) train, map (nth c) test]))"
  by (auto simp: train_test_split_def bind_Inr_iff safe_indexing_Inr_iff)

text \<open>
  C2. When \<^verbatim>\<open>_split_into_valid_and_train\<close> of either class returns, the streams have one
  length, and there is one pair of index lists, the one the shuffle split selects for
  that length, the test size and the seed, such that every stream of the train partition
  is its input stream read at the train indices and every stream of the valid partition
  is its input stream read at the test indices. So entry \<open>k\<close> of each stream of a
  partition comes from the same line of the corpus, and two calls with streams of the
  same length, the same test size and the same seed select the same lines.
\<close>

theorem split_into_valid_and_train_aligned:
  "(ner_split_into_valid_and_train E inp lab ts rs = Inr ((it, lt), (iv, lv)) \<longrightarrow>
      length lab = length inp
      \<and> (\<exists>train test. shuffle_split E (length inp) ts rs = Inr (train, test)
            \<and> (\<forall>i\<in>set (train @ test). i < length inp)
            \<and> it = map (nth inp) train \<and> lt = map (nth lab) train
            \<and> iv = map (nth inp) test \<and> lv = map (nth lab) test))
   \<and> (slu_split_into_valid_and_train E inp lab cls ts rs = Inr ((it, lt, ct), (iv, lv, cv)) \<longrightarrow>
      length lab = length inp \<and> length cls = length inp
      \<and> (\<exists>train test. shuffle_split E (length inp) ts rs = Inr (train, test)
            \<and> (\<forall>i\<in>set (train @ test). i < length inp)
            \<and> it = map (nth inp) train \<and> lt = map (nth lab) train \<and> ct = map (nth cls) train
            \<and> iv = map (nth inp) test \<and> lv = map (nth lab) test \<and> cv = map (nth cls) test))"
proof (rule conjI; rule impI)
  assume "ner_split_into_valid_and_train E inp lab ts rs = Inr ((it, lt), (iv, lv))"
  then obtain r where r: "train_test_split E [inp, lab] ts rs = Inr r"
    and u: "(case r of
         [input_train, input_test, label_train, label_test] \<Rightarrow>
           Inr ((input_train, label_train), (input_test, label_test))
       | _ \<Rightarrow> Inl (Raised ValueError [str ''wrong number of values to unpack'']))
       = Inr ((it, lt), (iv, lv))"
    by (auto simp: ner_split_into_valid_and_train_def bind_Inr_iff)
  from r obtain train test where len: "length lab = length inp"
    and s: "shuffle_split E (length inp) ts rs = Inr (train, test)"
    and i: "\<forall>i\<in>set (train @ test). i < length inp"
    and r': "r = [map (nth inp) train, map (nth inp) test, map (nth lab) train, map (nth lab) test]"
    unfolding train_test_split_two by blast
  from u r' have "it = map (nth inp) train \<and> lt = map (nth lab) train
            \<and> iv = map (nth inp) test \<and> lv = map (nth lab) test"
    by simp
  with len s i show "length lab = length inp
      \<and> (\<exists>train test. shuffle_split E (length inp) ts rs = Inr (train, test)
            \<and> (\<forall>i\<in>set (train @ test). i < length inp)
            \<and> it = map (nth inp) train \<and> lt = map (nth lab) train
            \<and> iv = map (nth inp) test \<and> lv = map (nth lab) test)"
    by blast
next
  assume "slu_split_into_valid_and_train E inp lab cls ts rs = Inr ((it, lt, ct), (iv, lv, cv))"
  then obtain r where r: "train_test_split E [inp, lab, cls] ts rs = Inr r"
    and u: "(case r of
         [input_train, input_test, label_train, label_test, class_train, class_test] \<Rightarrow>
           Inr ((input_train, label_train, class_train), (input_test, label_test, class_test))
       | _ \<Rightarrow> Inl (Raised ValueError [str ''wrong number of values to unpack'']))
       = Inr ((it, lt, ct), (iv, lv, cv))"
    by (auto simp: slu_split_into_valid_and_train_def bind_Inr_iff)
  from r obtain train test where len: "length lab = length inp" "length cls = length inp"
    and s: "shuffle_split E (length inp) ts rs = Inr (train, test)"
    and i: "\<forall>i\<in>set (train @ test). i < length inp"
    and r': "r = [map (nth inp) train, map (nth inp) test, map (nth lab) train, map (nth lab) test,
                  map (nth cls) train, map (nth cls) test]"
    unfolding train_test_split_three by blast
  from u r' have "it = map (nth inp) train \<and> lt = map (nth lab) train \<and> ct = map (nth cls) train
            \<and> iv = map (nth inp) test \<and> lv = map (nth lab) test \<and> cv = map (nth cls) test"
    by simp
  with len s i show "length lab = length inp \<and> length cls = length inp
      \<and> (\<exists>train test. shuffle_split E (length inp) ts rs = Inr (train, test)
            \<and> (\<forall>i\<in>set (train @ test). i < length inp)
            \<and> it = map (nth inp) train \<and> lt = map (nth lab) train \<and> ct = map (nth cls) train
            \<and> iv = map (nth inp) test \<and> lv = map (nth lab) test \<and> cv = map (nth cls) test)"
    by blast
qed

theorem split_into_valid_and_train_aligned_witness:
  "ner_split_into_valid_and_train example_env [str ''a b'', [], str ''c a'']
       [str ''O B'', [], str ''B O''] (1 / 10) 49
     = Inr (([str ''c a'', str ''a b''], [str ''B O'', str ''O B'']), ([[]], [[]]))
   \<and> slu_split_into_valid_and_train example_env [str ''a b'', [], str ''c a'']
       [str ''O B'', [], str ''B O''] [str ''x'', str ''y'', str ''x''] (1 / 10) 49
     = Inr (([str ''c a'', str ''a b''], [str ''B O'', str ''O B''], [str ''x'', str ''x'']),
            ([[]], [[]], [str ''y'']))
   \<and> shuffle_split example_env 3 (1 / 10) 49 = Inr ([2, 0], [1])
   \<and> [str ''c a'', str ''a b''] = map (nth [str ''a b'', [], str ''c a'']) [2, 0]
   \<and> [str ''B O'', str ''O B''] = map (nth [str ''O B'', [], str ''B O'']) [2, 0]
   \<and> [str ''x'', str ''x''] = map (nth [str ''x'', str ''y'', str ''x'']) [2, 0]
   \<and> [[]] = map (nth [str ''a b'', [], str ''c a'']) [1]
   \<and> [[]] = map (nth [str ''O B'', [], str ''B O'']) [1]
   \<and> [str ''y''] = map (nth [str ''x'', str ''y'', str ''x'']) [1]"
proof -
  let ?inp = "[str ''a b'', [], str ''c a'']"
  let ?lab = "[str ''O B'', [], str ''B O'']"
  let ?cls = "[str ''x'', str ''y'', str ''x'']"
  have sh: "shuffle_split example_env (length ?inp) (1 / 10) 49 = Inr ([2, 0], [1])"
    by (simp add: example_env_def)
  have sh3: "shuffle_split example_env 3 (1 / 10) 49 = Inr ([2, 0], [1])"
    by (simp add: example_env_def)
  have n: "ner_split_into_valid_and_train example_env ?inp ?lab (1 / 10) 49
     = Inr (([str ''c a'', str ''a b''], [str ''B O'', str ''O B'']), ([[]], [[]]))"
    by (simp add: ner_split_into_valid_and_train_def train_test_split_def safe_indexing_def
        example_env_def bind_def)
  have s: "slu_split_into_valid_and_train example_env ?inp ?lab ?cls (1 / 10) 49
     = Inr (([str ''c a'', str ''a b''], [str ''B O'', str ''O B''], [str ''x'', str ''x'']),
            ([[]], [[]], [str ''y'']))"
    by (simp add: slu_split_into_valid_and_train_def train_test_split_def safe_indexing_def
        example_env_def bind_def)
  note T = split_into_valid_and_train_aligned
    [of example_env ?inp ?lab "1 / 10" 49 "[str ''c a'', str ''a b'']" "[str ''B O'', str ''O B'']"
        "[[]]" "[[]]" ?cls "[str ''x'', str ''x'']" "[str ''y'']"]
  from T n sh have "[str ''c a'', str ''a b''] = map (nth ?inp) [2, 0]
      \<and> [str ''B O'', str ''O B''] = map (nth ?lab) [2, 0]
      \<and> [[]] = map (nth ?inp) [1] \<and> [[]] = map (nth ?lab) [1]"
    by auto
  moreover from T s sh have "[str ''x'', str ''x''] = map (nth ?cls) [2, 0]
      \<and> [str ''y''] = map (nth ?cls) [1]"
    by auto
  ultimately show ?thesis using n s sh3 by simp
qed

section \<open>Building and loading vocabularies\<close>

text \<open>
  C6. When \<^verbatim>\<open>build_vocabulary\<close> returns, each vocabulary of the builder is what \<^verbatim>\<open>fit\<close>
  made of a vocabulary constructed as follows. The input vocabulary (NER and SLU) has no
  begin-of-sequence and no end-of-sequence token, keeps the constructor's unknown and
  padding tokens, and takes \<^verbatim>\<open>max_size\<close> and \<^verbatim>\<open>min_freq\<close> from the call. The label
  vocabulary (tags, slots) has no unknown token and keeps the other three. The SLU class
  vocabulary has none of the four special tokens.
\<close>

theorem build_vocabulary_special_tokens:
  "(ner_build_vocabulary E ms mf b w = Inr (b', w') \<longrightarrow>
      (\<exists>iv lv iv' lv'.
         fit E iv (map Tokens (splitify (raw_input b))) = Inr iv' \<and> input_vocab b' = Some iv'
         \<and> fit E lv (map Tokens (splitify (raw_label b))) = Inr lv' \<and> label_vocab b' = Some lv'
         \<and> bos_token iv = None \<and> eos_token iv = None
         \<and> unknown_token iv = unknown_token (vocab_defaults E)
         \<and> padding_token iv = padding_token (vocab_defaults E)
         \<and> max_size iv = ms \<and> min_freq iv = mf
         \<and> unknown_token lv = None
         \<and> padding_token lv = padding_token (vocab_defaults E)
         \<and> bos_token lv = bos_token (vocab_defaults E)
         \<and> eos_token lv = eos_token (vocab_defaults E)))
   \<and> (slu_build_vocabulary E ms mf sb w = Inr (sb', w') \<longrightarrow>
      (\<exists>iv lv cv iv' lv' cv'.
         fit E iv (map Tokens (splitify (raw_input sb))) = Inr iv' \<and> input_vocab sb' = Some iv'
         \<and> fit E lv (map Tokens (splitify (raw_label sb))) = Inr lv' \<and> label_vocab sb' = Some lv'
         \<and> fit E cv (map Raw (raw_class sb)) = Inr cv' \<and> class_vocab sb' = Some cv'
         \<and> bos_token iv = None \<and> eos_token iv = None
         \<and> unknown_token iv = unknown_token (vocab_defaults E)
         \<and> padding_token iv = padding_token (vocab_defaults E)
         \<and> max_size iv = ms \<and> min_freq iv = mf
         \<and> unknown_token lv = None
         \<and> padding_token lv = padding_token (vocab_defaults E)
         \<and> bos_token lv = bos_token (vocab_defaults E)
         \<and> eos_token lv = eos_token (vocab_defaults E)
         \<and> unknown_token cv = None \<and> padding_token cv = None
         \<and> bos_token cv = None \<and> eos_token cv = None))"
proof (rule conjI; rule impI)
  let ?iv = "Vocabulary E (no_kwargs\<lparr> kw_max_size := Some ms, kw_min_freq := Some mf,
                                           kw_bos_token := Some None, kw_eos_token := Some None \<rparr>)"
  let ?lv = "Vocabulary E (no_kwargs\<lparr> kw_unknown_token := Some None \<rparr>)"
  assume "ner_build_vocabulary E ms mf b w = Inr (b', w')"
  then obtain iv' lv' where
    "fit E ?iv (map Tokens (splitify (raw_input b))) = Inr iv'"
    "fit E ?lv (map Tokens (splitify (raw_label b))) = Inr lv'"
    "b' = b\<lparr> input_vocab := Some iv', label_vocab := Some lv' \<rparr>"
    by (auto simp: ner_build_vocabulary_def Let_def bind_Inr_iff)
  then show "\<exists>iv lv iv' lv'.
         fit E iv (map Tokens (splitify (raw_input b))) = Inr iv' \<and> input_vocab b' = Some iv'
         \<and> fit E lv (map Tokens (splitify (raw_label b))) = Inr lv' \<and> label_vocab b' = Some lv'
         \<and> bos_token iv = None \<and> eos_token iv = None
         \<and> unknown_token iv = unknown_token (vocab_defaults E)
         \<and> padding_token iv = padding_token (vocab_defaults E)
         \<and> max_size iv = ms \<and> min_freq iv = mf
         \<and> unknown_token lv = None
         \<and> padding_token lv = padding_token (vocab_defaults E)
         \<and> bos_token lv = bos_token (vocab_defaults E)
         \<and> eos_token lv = eos_token (vocab_defaults E)"
    by (intro exI[of _ ?iv] exI[of _ ?lv] exI[of _ iv'] exI[of _ lv'])
       (simp add: Vocabulary_def no_kwargs_def)
next
  let ?iv = "Vocabulary E (no_kwargs\<lparr> kw_max_size := Some ms, kw_min_freq := Some mf,
                                           kw_bos_token := Some None, kw_eos_token := Some None \<rparr>)"
  let ?lv = "Vocabulary E (no_kwargs\<lparr> kw_unknown_token := Some None \<rparr>)"
  let ?cv = "Vocabulary E (no_kwargs\<lparr> kw_unknown_token := Some None, kw_padding_token := Some None,
                                           kw_bos_token := Some None, kw_eos_token := Some None \<rparr>)"
  assume "slu_build_vocabulary E ms mf sb w = Inr (sb', w')"
  then obtain iv' lv' cv' where
    "fit E ?iv (map Tokens (splitify (raw_input sb))) = Inr iv'"
    "fit E ?lv (map Tokens (splitify (raw_label sb))) = Inr lv'"
    "fit E ?cv (map Raw (raw_class sb)) = Inr cv'"
    "sb' = sb\<lparr> input_vocab := Some iv', label_vocab := Some lv', class_vocab := Some cv' \<rparr>"
    by (auto simp: slu_build_vocabulary_def Let_def bind_Inr_iff)
  then show "\<exists>iv lv cv iv' lv' cv'.
         fit E iv (map Tokens (splitify (raw_input sb))) = Inr iv' \<and> input_vocab sb' = Some iv'
         \<and> fit E lv (map Tokens (splitify (raw_label sb))) = Inr lv' \<and> label_vocab sb' = Some lv'
         \<and> fit E cv (map Raw (raw_class sb)) = Inr cv' \<and> class_vocab sb' = Some cv'
         \<and> bos_token iv = None \<and> eos_token iv = None
         \<and> unknown_token iv = unknown_token (vocab_defaults E)
         \<and> padding_token iv = padding_token (vocab_defaults E)
         \<and> max_size iv = ms \<and> min_freq iv = mf
         \<and> unknown_token lv = None
         \<and> padding_token lv = padding_token (vocab_defaults E)
         \<and> bos_token lv = bos_token (vocab_defaults E)
         \<and> eos_token lv = eos_token (vocab_defaults E)
         \<and> unknown_token cv = None \<and> padding_token cv = None
         \<and> bos_token cv = None \<and> eos_token cv = None"
    by (intro exI[of _ ?iv] exI[of _ ?lv] exI[of _ ?cv] exI[of _ iv'] exI[of _ lv'] exI[of _ cv'])
       (simp add: Vocabulary_def no_kwargs_def)
qed

lemma example_ner_build_vocabulary:
  "\<exists>b' w'. ner_build_vocabulary example_env None 1 example_ner example_world = Inr (b', w')"
  by (simp add: ner_build_vocabulary_def Let_def example_env_def bind_def write_text_def
      example_world_def)

lemma example_slu_build_vocabulary:
  "\<exists>b' w'. slu_build_vocabulary example_env None 1 example_slu example_world = Inr (b', w')"
  by (simp add: slu_build_vocabulary_def Let_def example_env_def bind_def write_text_def
      example_world_def)

lemma example_fit: "fit example_env v d = Inr v' \<Longrightarrow> v' = v"
  by (simp add: example_env_def)

lemma example_defaults:
  "unknown_token (vocab_defaults example_env) = Some (str ''<unk>'')"
  "padding_token (vocab_defaults example_env) = Some (str ''<pad>'')"
  "bos_token (vocab_defaults example_env) = Some (str ''<bos>'')"
  "eos_token (vocab_defaults example_env) = Some (str ''<eos>'')"
  by (simp_all add: example_env_def)

theorem build_vocabulary_special_tokens_witness:
  "(\<exists>b' w' iv lv.
      ner_build_vocabulary example_env None 1 example_ner example_world = Inr (b', w')
      \<and> input_vocab b' = Some iv \<and> label_vocab b' = Some lv
      \<and> unknown_token iv = Some (str ''<unk>'') \<and> padding_token iv = Some (str ''<pad>'')
      \<and> bos_token iv = None \<and> eos_token iv = None \<and> max_size iv = None \<and> min_freq iv = 1
      \<and> unknown_token lv = None \<and> padding_token lv = Some (str ''<pad>'')
      \<and> bos_token lv = Some (str ''<bos>'') \<and> eos_token lv = Some (str ''<eos>''))
   \<and> (\<exists>sb' w' cv.
      slu_build_vocabulary example_env None 1 example_slu example_world = Inr (sb', w')
      \<and> class_vocab sb' = Some cv
      \<and> unknown_token cv = None \<and> padding_token cv = None
      \<and> bos_token cv = None \<and> eos_token cv = None)"
proof -
  obtain b' w' where n: "ner_build_vocabulary example_env None 1 example_ner example_world = Inr (b', w')"
    using example_ner_build_vocabulary by blast
  obtain sb' w'' where s: "slu_build_vocabulary example_env None 1 example_slu example_world = Inr (sb', w'')"
    using example_slu_build_vocabulary by blast
  have "\<exists>iv lv. input_vocab b' = Some iv \<and> label_vocab b' = Some lv
      \<and> unknown_token iv = Some (str ''<unk>'') \<and> padding_token iv = Some (str ''<pad>'')
      \<and> bos_token iv = None \<and> eos_token iv = None \<and> max_size iv = None \<and> min_freq iv = 1
      \<and> unknown_token lv = None \<and> padding_token lv = Some (str ''<pad>'')
      \<and> bos_token lv = Some (str ''<bos>'') \<and> eos_token lv = Some (str ''<eos>'')"
    using build_vocabulary_special_tokens
        [of example_env None 1 example_ner example_world b' w', THEN conjunct1] n
      example_defaults
    by (auto dest!: example_fit)
  moreover have "\<exists>cv. class_vocab sb' = Some cv
      \<and> unknown_token cv = None \<and> padding_token cv = None
      \<and> bos_token cv = None \<and> eos_token cv = None"
    using build_vocabulary_special_tokens
        [of example_env None 1 _ example_world _ w'' example_slu sb', THEN conjunct2] s
    by (auto dest!: example_fit)
  ultimately show ?thesis using n s by blast
qed

text \<open>
  C7. For the task types \<^verbatim>\<open>'ner'\<close> and \<^verbatim>\<open>'word_segment'\<close>, \<^verbatim>\<open>load_vocab_dir\<close> returns a
  dict exactly when \<^verbatim>\<open>from_json\<close> succeeds on the input and the tag vocabulary file under
  \<^verbatim>\<open>dir_path / 'dataset'\<close>; the dict then has exactly the keys \<^verbatim>\<open>input_vocab\<close> and
  \<^verbatim>\<open>label_vocab\<close>, bound to the vocabularies read from those files. For \<^verbatim>\<open>'slu'\<close> the
  class vocabulary file is read as well and the keys are \<^verbatim>\<open>input_vocab\<close>,
  \<^verbatim>\<open>label_vocab\<close> and \<^verbatim>\<open>class_vocab\<close>. Every other task type raises ValueError.
\<close>

theorem load_vocab_dir_by_task:
  "(type = str ''ner'' \<or> type = str ''word_segment'' \<longrightarrow>
      (load_vocab_dir E type d w = Inr ret) =
      (\<exists>iv lv.
         from_json E (Vocabulary E no_kwargs)
            (Div (Div d (str ''dataset'')) (INPUT_VOCAB_FILENAME E)) w = Inr iv
         \<and> from_json E (Vocabulary E no_kwargs)
            (Div (Div d (str ''dataset'')) (TAG_VOCAB_FILENAME E)) w = Inr lv
         \<and> ret = [str ''input_vocab'' \<mapsto> iv, str ''label_vocab'' \<mapsto> lv]
         \<and> dom ret = {str ''input_vocab'', str ''label_vocab''}))
   \<and> (type = str ''slu'' \<longrightarrow>
      (load_vocab_dir E type d w = Inr ret) =
      (\<exists>iv lv cv.
         from_json E (Vocabulary E no_kwargs)
            (Div (Div d (str ''dataset'')) (INPUT_VOCAB_FILENAME E)) w = Inr iv
         \<and> from_json E (Vocabulary E no_kwargs)
            (Div (Div d (str ''dataset'')) (TAG_VOCAB_FILENAME E)) w = Inr lv
         \<and> from_json E (Vocabulary E no_kwargs)
            (Div (Div d (str ''dataset'')) (CLASS_VOCAB_FILENAME E)) w = Inr cv
         \<and> ret = [str ''input_vocab'' \<mapsto> iv, str ''label_vocab'' \<mapsto> lv, str ''class_vocab'' \<mapsto> cv]
         \<and> dom ret = {str ''input_vocab'', str ''label_vocab'', str ''class_vocab''}))
   \<and> (type \<noteq> str ''ner'' \<and> type \<noteq> str ''word_segment'' \<and> type \<noteq> str ''slu'' \<longrightarrow>
      load_vocab_dir E type d w = Inl (Raised ValueError []))"
proof (intro conjI impI)
  have ne: "str ''slu'' \<noteq> str ''ner''" "str ''slu'' \<noteq> str ''word_segment''"
    by (simp_all add: str_def)
  {
    assume "type = str ''ner'' \<or> type = str ''word_segment''"
    then show "(load_vocab_dir E type d w = Inr ret) =
      (\<exists>iv lv.
         from_json E (Vocabulary E no_kwargs)
            (Div (Div d (str ''dataset'')) (INPUT_VOCAB_FILENAME E)) w = Inr iv
         \<and> from_json E (Vocabulary E no_kwargs)
            (Div (Div d (str ''dataset'')) (TAG_VOCAB_FILENAME E)) w = Inr lv
         \<and> ret = [str ''input_vocab'' \<mapsto> iv, str ''label_vocab'' \<mapsto> lv]
         \<and> dom ret = {str ''input_vocab'', str ''label_vocab''})"
      unfolding load_vocab_dir_def Let_def by (auto simp: bind_Inr_iff)
  }
  {
    assume "type = str ''slu''"
    then show "(load_vocab_dir E type d w = Inr ret) =
      (\<exists>iv lv cv.
         from_json E (Vocabulary E no_kwargs)
            (Div (Div d (str ''dataset'')) (INPUT_VOCAB_FILENAME E)) w = Inr iv
         \<and> from_json E (Vocabulary E no_kwargs)
            (Div (Div d (str ''dataset'')) (TAG_VOCAB_FILENAME E)) w = Inr lv
         \<and> from_json E (Vocabulary E no_kwargs)
            (Div (Div d (str ''dataset'')) (CLASS_VOCAB_FILENAME E)) w = Inr cv
         \<and> ret = [str ''input_vocab'' \<mapsto> iv, str ''label_vocab'' \<mapsto> lv, str ''class_vocab'' \<mapsto> cv]
         \<and> dom ret = {str ''input_vocab'', str ''label_vocab'', str ''class_vocab''})"
      unfolding load_vocab_dir_def Let_def using ne by (auto simp: bind_Inr_iff)
  }
  {
    assume "type \<noteq> str ''ner'' \<and> type \<noteq> str ''word_segment'' \<and> type \<noteq> str ''slu''"
    then show "load_vocab_dir E type d w = Inl (Raised ValueError [])"
      by (simp add: load_vocab_dir_def)
  }
qed

lemma example_from_json:
  "from_json example_env v (Div (Div (Path (str ''model'')) (str ''dataset'')) (INPUT_VOCAB_FILENAME example_env))
      example_model_world = Inr (v\<lparr>word_to_idx := [(str ''I'', 0)]\<rparr>)"
  "from_json example_env v (Div (Div (Path (str ''model'')) (str ''dataset'')) (TAG_VOCAB_FILENAME example_env))
      example_model_world = Inr (v\<lparr>word_to_idx := [(str ''T'', 0)]\<rparr>)"
  "from_json example_env v (Div (Div (Path (str ''model'')) (str ''dataset'')) (CLASS_VOCAB_FILENAME example_env))
      example_model_world = Inr (v\<lparr>word_to_idx := [(str ''C'', 0)]\<rparr>)"
  by (simp_all add: example_env_def open_read_def example_model_world_def bind_def str_def)

theorem load_vocab_dir_by_task_witness:
  "load_vocab_dir example_env (str ''ner'') (Path (str ''model'')) example_model_world
     = Inr [str ''input_vocab'' \<mapsto> (Vocabulary example_env no_kwargs)\<lparr>word_to_idx := [(str ''I'', 0)]\<rparr>,
            str ''label_vocab'' \<mapsto> (Vocabulary example_env no_kwargs)\<lparr>word_to_idx := [(str ''T'', 0)]\<rparr>]
   \<and> load_vocab_dir example_env (str ''slu'') (Path (str ''model'')) example_model_world
     = Inr [str ''input_vocab'' \<mapsto> (Vocabulary example_env no_kwargs)\<lparr>word_to_idx := [(str ''I'', 0)]\<rparr>,
            str ''label_vocab'' \<mapsto> (Vocabulary example_env no_kwargs)\<lparr>word_to_idx := [(str ''T'', 0)]\<rparr>,
            str ''class_vocab'' \<mapsto> (Vocabulary example_env no_kwargs)\<lparr>word_to_idx := [(str ''C'', 0)]\<rparr>]
   \<and> load_vocab_dir example_env (str ''pos'') (Path (str ''model'')) example_model_world
     = Inl (Raised ValueError [])"
proof -
  let ?V = "Vocabulary example_env no_kwargs"
  let ?r2 = "[str ''input_vocab'' \<mapsto> ?V\<lparr>word_to_idx := [(str ''I'', 0)]\<rparr>,
            str ''label_vocab'' \<mapsto> ?V\<lparr>word_to_idx := [(str ''T'', 0)]\<rparr>]"
  let ?r3 = "[str ''input_vocab'' \<mapsto> ?V\<lparr>word_to_idx := [(str ''I'', 0)]\<rparr>,
            str ''label_vocab'' \<mapsto> ?V\<lparr>word_to_idx := [(str ''T'', 0)]\<rparr>,
            str ''class_vocab'' \<mapsto> ?V\<lparr>word_to_idx := [(str ''C'', 0)]\<rparr>]"
  have k: "str ''input_vocab'' \<noteq> str ''label_vocab''" "str ''input_vocab'' \<noteq> str ''class_vocab''"
    "str ''label_vocab'' \<noteq> str ''class_vocab''"
    by (simp_all add: str_def)
  have d2: "dom ?r2 = {str ''input_vocab'', str ''label_vocab''}"
    by auto
  have d3: "dom ?r3 = {str ''input_vocab'', str ''label_vocab'', str ''class_vocab''}"
    by auto
  have t: "str ''pos'' \<noteq> str ''ner'' \<and> str ''pos'' \<noteq> str ''word_segment'' \<and> str ''pos'' \<noteq> str ''slu''"
    by (simp add: str_def)
  have "load_vocab_dir example_env (str ''ner'') (Path (str ''model'')) example_model_world = Inr ?r2"
    using load_vocab_dir_by_task
      [of "str ''ner''" example_env "Path (str ''model'')" example_model_world ?r2, THEN conjunct1]
      example_from_json(1,2)[of ?V] d2
    by blast
  moreover
  have "load_vocab_dir example_env (str ''slu'') (Path (str ''model'')) example_model_world = Inr ?r3"
    using load_vocab_dir_by_task
      [of "str ''slu''" example_env "Path (str ''model'')" example_model_world ?r3,
       THEN conjunct2, THEN conjunct1]
      example_from_json[of ?V] d3
    by blast
  moreover
  have "load_vocab_dir example_env (str ''pos'') (Path (str ''model'')) example_model_world
     = Inl (Raised ValueError [])"
    using load_vocab_dir_by_task
      [of "str ''pos''" example_env "Path (str ''model'')" example_model_world,
       THEN conjunct2, THEN conjunct2] t
    by blast
  ultimately show ?thesis by simp
qed

section \<open>The class stream of the SLU builder\<close>






end
